theory Spec2Isabelle
  imports Complex_Main
begin

section \<open>MorseWriter: the Morse timing decoder and action dispatch of MorseCodeGUI.py\<close>

text \<open>
  The theory embeds the key handling of class \<open>Window\<close> (\<open>on_press\<close>, \<open>on_release\<close>,
  \<open>repeat_key\<close>, \<open>addDit\<close>, \<open>addDah\<close>, \<open>startEndCharacterTimer\<close>, \<open>endCharacter\<close>,
  \<open>enableRepeatMode\<close>, \<open>handleMorseCode\<close>, \<open>changeLayout\<close>), the \<open>perform\<close> methods of the
  action classes, class \<open>TypeState\<close>, \<open>expand_abbreviation\<close>, \<open>LayoutManager.get_active_layout\<close>
  and \<open>CodeRepresentation.codetocode\<close>.

  Conventions of the embedding:
  \<^item> The object state of the window, of the layout manager and of the text state is one record
    that every method takes and returns.
  \<^item> Calls to the \<open>keyboard\<close> and \<open>mouse\<close> libraries are appended to the field \<open>synthesized\<close>.
  \<^item> Sound playback, the on-screen code view (\<open>codeslayoutview\<close>) and logging have no effect on
    the modelled state and are left out; they are taken not to raise.
  \<^item> A Python exception is an \<open>Inl\<close> value; every \<open>try\<close>/\<open>except\<close> of the source is a case
    distinction that keeps the effects made before the raise.
  \<^item> \<open>time.time()\<close> is a parameter of the handlers (seconds, as a rational number).
  \<^item> A \<open>QTimer\<close> is modelled by whether it is running; its timeout is an event of its own.
\<close>

subsection \<open>Data\<close>

text \<open>\<open>addDit\<close> appends the integer 1 and \<open>addDah\<close> the integer 2 to \<open>currentCharacter\<close>;
  \<open>str\<close> renders them as the digits \<open>1\<close> and \<open>2\<close>.\<close>

datatype MorseSymbol = Dit | Dah

fun str_symbol :: "MorseSymbol \<Rightarrow> char" where
  "str_symbol Dit = CHR ''1''"
| "str_symbol Dah = CHR ''2''"

text \<open>The radio buttons \<open>keySelectionRadioOneKey\<close>, \<open>...TwoKey\<close>, \<open>...ThreeKey\<close> of one
  exclusive group.\<close>

datatype InputMode = OneKey | TwoKey | ThreeKey

datatype py_error = AttributeError | IndexError | KeyError | TypeError | ValueError

datatype button = LEFT | RIGHT

text \<open>The calls made to the input-synthesis libraries.\<close>

datatype synth =
    PressAndRelease string
  | KeyPress string
  | KeyRelease string
  | MoveMouse int int
  | MouseClick button
  | MousePress button
  | MouseRelease button

text \<open>The action objects stored under \<open>item['_action']\<close>. \<open>ActionKeyStroke\<close> carries
  \<open>item.get('character')\<close>, \<open>key\<close> and \<open>toggle_action\<close>; \<open>ActionLegacy\<close> its \<open>key\<close>;
  \<open>ChangeLayoutAction\<close> and \<open>PredictionSelectLayoutAction\<close> their \<open>item['target']\<close>.\<close>

datatype action =
    ActionKeyStroke "string option" string bool
  | ActionLegacy string
  | ChangeLayoutAction string
  | PredictionSelectLayoutAction int
  | RepeatOnAction

text \<open>A layout item: \<open>item.get('code')\<close> and \<open>item['_action']\<close> (\<open>None\<close> when \<open>set_actions\<close>
  found no action of that name).\<close>

record item =
  code :: "string option"
  item_action :: "action option"

record layout =
  items :: "item list option"

text \<open>The value \<open>TypeState.expanded_text\<close> holds: \<open>None\<close>, a string, or the pair
  \<open>(None, None)\<close> that the \<open>except\<close> branch of \<open>get_abbreviation\<close> stores.\<close>

datatype expanded = ExpNone | ExpText string | ExpNonePair

record TypeState =
  ts_text :: string
  predictions :: "string list option"
  abbreviations :: "(string \<times> string) list"
  expanded_text :: expanded
  keyLength :: "nat option"

text \<open>
  The state. \<open>repeat_character_timer\<close>, \<open>fast_morse_mode_timer\<close> and \<open>endCharacterTimer\<close> are the
  attributes of that name: \<open>None\<close> or a running timer (the fast-repeat timer's callback has
  captured \<open>key\<close> and \<open>role\<close>). The sticky-repeat timer is created as \<open>QTimer(self)\<close>, a child of
  the window: when \<open>endCharacter\<close> overwrites the attribute without stopping the timer it held,
  that timer keeps running; \<open>orphaned_repeat_timers\<close> counts those. \<open>module_typestate\<close> is the
  module-level variable \<open>typestate\<close>, \<open>typestate\<close> the attribute \<open>Window.typestate\<close>.
  \<open>endCharacter_count\<close> counts the runs of \<open>endCharacter\<close> (its debug line).
\<close>

record Window =
  repeaton :: bool
  repeat_character_timer :: bool
  orphaned_repeat_timers :: nat
  inputDisabled :: bool
  lastKeyDownTime :: "rat option"
  fast_morse_mode_timer :: "(string \<times> nat) option"
  endCharacterTimer :: bool
  currentCharacter :: "MorseSymbol list"
  previousCharacter :: "MorseSymbol list"
  typestate :: "TypeState option"
  module_typestate :: "TypeState option"
  layouts :: "(string \<times> layout) list"
  active_layout_name :: "string option"
  synthesized :: "synth list"
  endCharacter_count :: nat

text \<open>What the handlers read and never write: \<open>config['fastMorseMode']\<close>,
  \<open>config['maxDitTime']\<close> (milliseconds), the checked radio button, and the two collaborators
  \<open>presage.predict()\<close> (a function of the text so far; \<open>None\<close> when it raises) and
  \<open>keyboard.is_pressed\<close>.\<close>

record env =
  fastMorseMode :: bool
  maxDitTime :: rat
  keySelection :: InputMode
  predict :: "string \<Rightarrow> string list option"
  is_pressed :: "string \<Rightarrow> bool"

subsection \<open>TypeState and abbreviations\<close>

definition pushchar :: "string \<Rightarrow> TypeState \<Rightarrow> TypeState" where
  "pushchar c ts = ts\<lparr>ts_text := ts_text ts @ c, predictions := None\<rparr>"

definition popchar :: "TypeState \<Rightarrow> TypeState" where
  "popchar ts = ts\<lparr>ts_text := butlast (ts_text ts), predictions := None\<rparr>"

definition getpredictions :: "env \<Rightarrow> TypeState \<Rightarrow> string list \<times> TypeState" where
  "getpredictions e ts =
     (case predictions ts of
        None \<Rightarrow>
          (let p = (case predict e (ts_text ts) of None \<Rightarrow> [] | Some ps \<Rightarrow> ps)
           in (p, ts\<lparr>predictions := Some p\<rparr>))
      | Some p \<Rightarrow> (p, ts))"

text \<open>The characters at which \<open>str.split()\<close> without arguments splits (code points below 256).\<close>

definition isspace :: "char \<Rightarrow> bool" where
  "isspace c = (c \<in> set [CHR '' '', CHR 0x09, CHR 0x0A, CHR 0x0B, CHR 0x0C, CHR 0x0D,
                          CHR 0x1C, CHR 0x1D, CHR 0x1E, CHR 0x1F, CHR 0x85, CHR 0xA0])"

text \<open>\<open>keys.split()\<close>: the maximal runs of non-whitespace characters, in order.\<close>

fun py_split :: "string \<Rightarrow> string list" where
  "py_split [] = []"
| "py_split (c # cs) =
     (if isspace c then py_split cs
      else (case cs of
              [] \<Rightarrow> [[c]]
            | d # _ \<Rightarrow>
                if isspace d then [c] # py_split cs
                else (case py_split cs of [] \<Rightarrow> [[c]] | w # ws \<Rightarrow> (c # w) # ws)))"

text \<open>\<open>expand_abbreviation\<close>: \<open>words[-1]\<close> raises \<open>IndexError\<close> on an empty list. The dictionary
  is the list of its entries. The source wraps this module-level function in \<open>staticmethod\<close>;
  it is taken to be callable, as it is from Python 3.10 on.\<close>

definition expand_abbreviation ::
  "string \<Rightarrow> (string \<times> string) list \<Rightarrow> py_error + (string option \<times> nat option)" where
  "expand_abbreviation keys abbrs =
     (case py_split keys of
        [] \<Rightarrow> Inl IndexError
      | w # ws \<Rightarrow>
          (let last_word = last (w # ws)
           in (case map_of abbrs last_word of
                 Some expansion \<Rightarrow> Inr (Some expansion, Some (length last_word))
               | None \<Rightarrow> Inr (None, None))))"

text \<open>\<open>TypeState.get_abbreviation\<close>: on an exception only \<open>expanded_text\<close> is overwritten, with
  the pair \<open>(None, None)\<close>; \<open>keyLength\<close> keeps its last value.\<close>

definition get_abbreviation :: "TypeState \<Rightarrow> (expanded \<times> nat option) \<times> TypeState" where
  "get_abbreviation ts =
     (let ts' =
        (case expand_abbreviation (ts_text ts) (abbreviations ts) of
           Inr (x, k) \<Rightarrow>
             ts\<lparr>expanded_text := (case x of None \<Rightarrow> ExpNone | Some t \<Rightarrow> ExpText t),
                keyLength := k\<rparr>
         | Inl err \<Rightarrow> ts\<lparr>expanded_text := ExpNonePair\<rparr>)
      in ((expanded_text ts', keyLength ts'), ts'))"

subsection \<open>Actions\<close>

definition send :: "synth \<Rightarrow> Window \<Rightarrow> Window" where
  "send x s = s\<lparr>synthesized := synthesized s @ [x]\<rparr>"

text \<open>The loop \<open>for _ in range(keylength): popchar(); press_and_release('backspace')\<close>.\<close>

fun rollback :: "nat \<Rightarrow> TypeState \<Rightarrow> synth list \<Rightarrow> TypeState \<times> synth list" where
  "rollback 0 ts out = (ts, out)"
| "rollback (Suc n) ts out = rollback n (popchar ts) (out @ [PressAndRelease ''backspace''])"

text \<open>
  \<open>ActionKeyStroke.perform\<close>. Without \<open>toggle_action\<close> the first statement formats a debug line
  with \<open>self.window.typestate.past_stream()\<close>: with no text state attached this raises
  \<open>AttributeError\<close> before any key is sent. \<open>pushchar(None)\<close> raises \<open>TypeError\<close>
  (\<open>str += None\<close>), \<open>range(None)\<close> raises \<open>TypeError\<close>, and iterating the pair \<open>(None, None)\<close>
  calls \<open>keyboard.press_and_release(None)\<close>, which raises. Each raise ends the method in its
  \<open>except\<close> clause, with the effects made so far.
\<close>

definition ActionKeyStroke_perform ::
  "env \<Rightarrow> string option \<Rightarrow> string \<Rightarrow> bool \<Rightarrow> Window \<Rightarrow> Window" where
  "ActionKeyStroke_perform e character key toggle_action s =
     (if toggle_action then
        (if is_pressed e key then send (KeyRelease key) s else send (KeyPress key) s)
      else
        (case typestate s of
           None \<Rightarrow> s
         | Some ts0 \<Rightarrow>
             (let s1 = send (PressAndRelease key) s in
              (case (if key \<in> set [''backspace'', ''delete''] then Some (popchar ts0)
                     else map_option (\<lambda>c. pushchar c ts0) character) of
                 None \<Rightarrow> s1
               | Some ts1 \<Rightarrow>
                   (case get_abbreviation ts1 of
                      ((abbreviation, keylength), ts2) \<Rightarrow>
                        (case abbreviation of
                           ExpNone \<Rightarrow> s1\<lparr>typestate := Some ts2\<rparr>
                         | ExpText expansion \<Rightarrow>
                             (case keylength of
                                None \<Rightarrow> s1\<lparr>typestate := Some ts2\<rparr>
                              | Some n \<Rightarrow>
                                  (case rollback n ts2 (synthesized s1) of
                                     (ts3, out3) \<Rightarrow>
                                       s1\<lparr>typestate := Some ts3,
                                          synthesized :=
                                            out3 @ map (\<lambda>c. PressAndRelease [c]) expansion
                                                 @ [PressAndRelease ''space'']\<rparr>))
                         | ExpNonePair \<Rightarrow>
                             (case keylength of
                                None \<Rightarrow> s1\<lparr>typestate := Some ts2\<rparr>
                              | Some n \<Rightarrow>
                                  (case rollback n ts2 (synthesized s1) of
                                     (ts3, out3) \<Rightarrow>
                                       s1\<lparr>typestate := Some ts3, synthesized := out3\<rparr>))))))))"

text \<open>The table \<open>action_map\<close> of \<open>ActionLegacy.perform\<close>, with \<open>moveMouse\<close> and \<open>clickMouse\<close>
  unfolded (\<open>mouse.LEFT\<close> is the string \<open>'left'\<close>).\<close>

definition action_map :: "(string \<times> synth) list" where
  "action_map =
     [(''MOUSEUP5'', MoveMouse 0 (-5)), (''MOUSEDOWN5'', MoveMouse 0 5),
      (''MOUSELEFT5'', MoveMouse (-5) 0), (''MOUSERIGHT5'', MoveMouse 5 0),
      (''MOUSEUPLEFT5'', MoveMouse (-5) (-5)), (''MOUSEUPRIGHT5'', MoveMouse 5 (-5)),
      (''MOUSEDOWNLEFT5'', MoveMouse (-5) 5), (''MOUSEDOWNRIGHT5'', MoveMouse 5 5),
      (''MOUSEUP40'', MoveMouse 0 (-40)), (''MOUSEDOWN40'', MoveMouse 0 40),
      (''MOUSELEFT40'', MoveMouse (-40) 0), (''MOUSERIGHT40'', MoveMouse 40 0),
      (''MOUSEUPLEFT40'', MoveMouse (-40) (-40)), (''MOUSEUPRIGHT40'', MoveMouse 40 (-40)),
      (''MOUSEDOWNLEFT40'', MoveMouse (-40) 40), (''MOUSEDOWNRIGHT40'', MoveMouse 40 40),
      (''MOUSEUP250'', MoveMouse 0 (-250)), (''MOUSEDOWN250'', MoveMouse 0 250),
      (''MOUSELEFT250'', MoveMouse (-250) 0), (''MOUSERIGHT250'', MoveMouse 250 0),
      (''MOUSEUPLEFT250'', MoveMouse (-250) (-250)), (''MOUSEUPRIGHT250'', MoveMouse 250 (-250)),
      (''MOUSEDOWNLEFT250'', MoveMouse (-250) 250), (''MOUSEDOWNRIGHT250'', MoveMouse 250 250),
      (''MOUSECLICKLEFT'', MouseClick LEFT), (''MOUSECLICKRIGHT'', MouseClick RIGHT),
      (''MOUSECLKHLDLEFT'', MousePress LEFT), (''MOUSECLKHLDRIGHT'', MousePress RIGHT),
      (''MOUSERELEASEHOLD'', MouseRelease LEFT)]"

definition ActionLegacy_perform :: "string \<Rightarrow> Window \<Rightarrow> Window" where
  "ActionLegacy_perform key s =
     (case map_of action_map key of Some x \<Rightarrow> send x s | None \<Rightarrow> s)"

text \<open>\<open>Window.changeLayout\<close>, the callback of \<open>ChangeLayoutAction\<close>.\<close>

definition changeLayout :: "string \<Rightarrow> Window \<Rightarrow> Window" where
  "changeLayout layout_name s =
     (if layout_name \<in> fst ` set (layouts s) then s\<lparr>active_layout_name := Some layout_name\<rparr>
      else s)"

text \<open>The loop of \<open>PredictionSelectLayoutAction.perform\<close> that looks for the start of the
  word in progress: \<open>i\<close> runs over \<open>range(len(pred))\<close>, \<open>idx = len(text) - i\<close> is a Python
  integer and may be negative.\<close>

fun find_stripsuffix :: "string \<Rightarrow> nat list \<Rightarrow> string" where
  "find_stripsuffix txt [] = []"
| "find_stripsuffix txt (i # rest) =
     (let idx = int (length txt) - int i
      in if idx = 0 \<or> (idx > 0 \<and> txt ! (nat idx - 1) \<in> set [CHR '' '', CHR 0x0A, CHR 0x09, CHR 0x0D])
         then drop (nat idx) txt
         else find_stripsuffix txt rest)"

text \<open>\<open>PredictionSelectLayoutAction.perform\<close>: it reads the module-level variable
  \<open>typestate\<close>, not \<open>Window.typestate\<close>.\<close>

definition PredictionSelectLayoutAction_perform :: "env \<Rightarrow> int \<Rightarrow> Window \<Rightarrow> Window" where
  "PredictionSelectLayoutAction_perform e target s =
     (case module_typestate s of
        None \<Rightarrow> s
      | Some ts \<Rightarrow>
          (case getpredictions e ts of
             (preds, ts1) \<Rightarrow>
               if target \<ge> 0 \<and> target < int (length preds) then
                 (let pred = preds ! nat target;
                      stripsuffix = find_stripsuffix (ts_text ts1) [0 ..< length pred];
                      newchars = drop (length stripsuffix) pred @ '' ''
                  in s\<lparr>module_typestate :=
                         Some (ts1\<lparr>ts_text :=
                                 take (length (ts_text ts1) - length stripsuffix) (ts_text ts1)
                                 @ newchars\<rparr>),
                       synthesized := synthesized s @ map (\<lambda>c. PressAndRelease [c]) newchars\<rparr>)
               else s\<lparr>module_typestate := Some ts1\<rparr>))"

text \<open>\<open>Window.enableRepeatMode\<close>, the callback of \<open>RepeatOnAction\<close>.\<close>

definition enableRepeatMode :: "Window \<Rightarrow> Window" where
  "enableRepeatMode s = s\<lparr>repeaton := True\<rparr>"

fun perform :: "env \<Rightarrow> action \<Rightarrow> Window \<Rightarrow> Window" where
  "perform e (ActionKeyStroke character key toggle_action) s =
     ActionKeyStroke_perform e character key toggle_action s"
| "perform e (ActionLegacy key) s = ActionLegacy_perform key s"
| "perform e (ChangeLayoutAction layout_name) s = changeLayout layout_name s"
| "perform e (PredictionSelectLayoutAction target) s =
     PredictionSelectLayoutAction_perform e target s"
| "perform e RepeatOnAction s = enableRepeatMode s"

subsection \<open>Resolving and finalizing a character\<close>

definition get_active_layout :: "Window \<Rightarrow> py_error + layout" where
  "get_active_layout s =
     (case active_layout_name s of
        None \<Rightarrow> Inl ValueError
      | Some n \<Rightarrow>
          if n = [] then Inl ValueError
          else (case map_of (layouts s) n of None \<Rightarrow> Inl KeyError | Some l \<Rightarrow> Inr l))"

text \<open>\<open>"".join(str(char) for char in character)\<close>.\<close>

definition morse_code_of :: "MorseSymbol list \<Rightarrow> string" where
  "morse_code_of character = map str_symbol character"

text \<open>\<open>next((item for item in items if item.get('code') == morse_code), None)\<close>.\<close>

definition find_item :: "item list \<Rightarrow> string \<Rightarrow> item option" where
  "find_item its morse_code = find (\<lambda>it. code it = Some morse_code) its"

text \<open>\<open>Window.handleMorseCode\<close>. Every path that performs no action only logs.\<close>

definition handleMorseCode :: "env \<Rightarrow> MorseSymbol list \<Rightarrow> Window \<Rightarrow> Window" where
  "handleMorseCode e character s =
     (let morse_code = morse_code_of character in
      if morse_code = [] then s
      else
        (case get_active_layout s of
           Inl err \<Rightarrow> s
         | Inr active_layout \<Rightarrow>
             (case find_item (case items active_layout of None \<Rightarrow> [] | Some its \<Rightarrow> its)
                     morse_code of
                None \<Rightarrow> s
              | Some it \<Rightarrow>
                  (case item_action it of
                     None \<Rightarrow> s
                   | Some a \<Rightarrow> perform e a s))))"

definition addDit :: "Window \<Rightarrow> Window" where
  "addDit s = s\<lparr>currentCharacter := currentCharacter s @ [Dit]\<rparr>"

definition addDah :: "Window \<Rightarrow> Window" where
  "addDah s = s\<lparr>currentCharacter := currentCharacter s @ [Dah]\<rparr>"

text \<open>\<open>startEndCharacterTimer\<close> stops the timer it holds before it starts a new single-shot
  one, so at most one boundary timer runs.\<close>

definition startEndCharacterTimer :: "Window \<Rightarrow> Window" where
  "startEndCharacterTimer s = s\<lparr>endCharacterTimer := True\<rparr>"

text \<open>\<open>Window.endCharacter\<close>. The new sticky-repeat timer replaces the attribute without
  stopping a timer that the attribute still holds.\<close>

definition endCharacter :: "env \<Rightarrow> Window \<Rightarrow> Window" where
  "endCharacter e s =
     (let s1 = s\<lparr>endCharacterTimer := False, endCharacter_count := Suc (endCharacter_count s)\<rparr>;
          s2 = handleMorseCode e (currentCharacter s1) s1;
          s3 = (if repeaton s2 then
                  (if previousCharacter s2 \<noteq> [] then
                     s2\<lparr>orphaned_repeat_timers :=
                          orphaned_repeat_timers s2 + (if repeat_character_timer s2 then 1 else 0),
                        repeat_character_timer := True\<rparr>
                   else s2)
                else s2\<lparr>previousCharacter := currentCharacter s2\<rparr>)
      in s3\<lparr>currentCharacter := []\<rparr>)"

subsection \<open>Key events\<close>

text \<open>\<open>check_disable_combination\<close>: the attribute \<open>key_state\<close> is defined nowhere, so the
  conjunction raises \<open>AttributeError\<close> as soon as \<open>key == 'P'\<close> holds.\<close>

definition check_disable_combination :: "string \<Rightarrow> py_error + bool" where
  "check_disable_combination key = (if key = ''P'' then Inl AttributeError else Inr False)"

definition repeat_key :: "env \<Rightarrow> string \<Rightarrow> nat \<Rightarrow> Window \<Rightarrow> Window" where
  "repeat_key e key role s =
     (if role = 0 then addDit s
      else if role = 1 then addDah s
      else if role = 2 then endCharacter e s
      else s)"

definition on_press :: "env \<Rightarrow> string \<Rightarrow> nat \<Rightarrow> rat \<Rightarrow> Window \<Rightarrow> Window" where
  "on_press e key role now s =
     (let s1 = s\<lparr>repeaton := False, repeat_character_timer := False\<rparr> in
      (case check_disable_combination key of
         Inl err \<Rightarrow> s1
       | Inr toggle \<Rightarrow>
           if toggle then s1\<lparr>inputDisabled := \<not> inputDisabled s1\<rparr>
           else if inputDisabled s1 then s1
           else if lastKeyDownTime s1 \<noteq> None then s1
           else
             (let s2 = s1\<lparr>lastKeyDownTime := Some now\<rparr>;
                  s3 = (if fastMorseMode e \<and> keySelection e \<noteq> OneKey
                        then s2\<lparr>fast_morse_mode_timer := Some (key, role)\<rparr> else s2)
              in if keySelection e \<noteq> OneKey then
                   (if role = 0 then addDit s3
                    else if role = 1 then addDah s3
                    else if role = 2 then endCharacter e s3
                    else s3)
                 else s3)))"

definition on_release :: "env \<Rightarrow> string \<Rightarrow> nat \<Rightarrow> rat \<Rightarrow> Window \<Rightarrow> Window" where
  "on_release e key role now s =
     (let s1 = s\<lparr>fast_morse_mode_timer := None\<rparr> in
      (case lastKeyDownTime s1 of
         None \<Rightarrow> s1
       | Some t0 \<Rightarrow>
           (let duration = (now - t0) * 1000;
                s2 = s1\<lparr>lastKeyDownTime := None\<rparr>;
                s3 = (if keySelection e = OneKey
                      then (if duration < maxDitTime e then addDit s2 else addDah s2)
                      else s2)
            in if keySelection e = OneKey \<or> keySelection e = TwoKey
               then startEndCharacterTimer s3 else s3)))"

text \<open>
  The events the engine thread handles: the two key signals of \<open>handle_key_event\<close> (with the
  clock reading taken in the handler) and the timeouts of the three timers. A timeout is
  delivered only by a running timer: the boundary timer calls \<open>endCharacter\<close>, the fast-repeat
  timer \<open>repeat_key(key, role)\<close> with the values captured at the press, a sticky-repeat timer
  \<open>handleMorseCode(self.previousCharacter)\<close>.
\<close>

datatype event =
    Press string nat rat
  | Release string nat rat
  | EndCharacterTimeout
  | FastMorseTimeout
  | RepeatCharacterTimeout

fun step :: "env \<Rightarrow> Window \<Rightarrow> event \<Rightarrow> Window" where
  "step e s (Press key role now) = on_press e key role now s"
| "step e s (Release key role now) = on_release e key role now s"
| "step e s EndCharacterTimeout = (if endCharacterTimer s then endCharacter e s else s)"
| "step e s FastMorseTimeout =
     (case fast_morse_mode_timer s of
        None \<Rightarrow> s
      | Some (key, role) \<Rightarrow> repeat_key e key role s)"
| "step e s RepeatCharacterTimeout =
     (if repeat_character_timer s \<or> orphaned_repeat_timers s > 0
      then handleMorseCode e (previousCharacter s) s else s)"

definition run :: "env \<Rightarrow> Window \<Rightarrow> event list \<Rightarrow> Window" where
  "run e s evs = foldl (step e) s evs"

text \<open>The attributes as \<open>Window.__init__\<close> and \<open>Window.init\<close> set them, for a given layout
  table, main layout and text state.\<close>

definition initial :: "(string \<times> layout) list \<Rightarrow> string \<Rightarrow> TypeState option \<Rightarrow> Window" where
  "initial ls main ts =
     \<lparr>repeaton = False, repeat_character_timer = False, orphaned_repeat_timers = 0,
      inputDisabled = False, lastKeyDownTime = None, fast_morse_mode_timer = None,
      endCharacterTimer = False, currentCharacter = [], previousCharacter = [],
      typestate = ts, module_typestate = None, layouts = ls, active_layout_name = Some main,
      synthesized = [], endCharacter_count = 0\<rparr>"

text \<open>\<open>CodeRepresentation.codetocode\<close>: \<open>code.replace('1', '.').replace('2', '-')\<close>, used for
  the on-screen code line.\<close>

definition codetocode :: "string \<Rightarrow> string" where
  "codetocode c =
     map (\<lambda>x. if x = CHR ''2'' then CHR ''-'' else x)
         (map (\<lambda>x. if x = CHR ''1'' then CHR ''.'' else x) c)"

subsection \<open>Notions used in the statements\<close>

text \<open>Two states agree on everything that performing an action cannot touch: the timers, the
  open press, the two code buffers, the layout table and the finalization count.\<close>

definition engine_eq :: "Window \<Rightarrow> Window \<Rightarrow> bool" where
  "engine_eq s' s \<longleftrightarrow>
     repeat_character_timer s' = repeat_character_timer s \<and>
     orphaned_repeat_timers s' = orphaned_repeat_timers s \<and>
     inputDisabled s' = inputDisabled s \<and>
     lastKeyDownTime s' = lastKeyDownTime s \<and>
     fast_morse_mode_timer s' = fast_morse_mode_timer s \<and>
     endCharacterTimer s' = endCharacterTimer s \<and>
     currentCharacter s' = currentCharacter s \<and>
     previousCharacter s' = previousCharacter s \<and>
     layouts s' = layouts s \<and>
     endCharacter_count s' = endCharacter_count s"

text \<open>The rendering in the words of the specification, for comparison with
  \<open>morse_code_of\<close>: a dot for each Dit and a dash for each Dah.\<close>

fun spec_symbol :: "MorseSymbol \<Rightarrow> char" where
  "spec_symbol Dit = CHR ''.''"
| "spec_symbol Dah = CHR ''-''"

definition spec_render :: "MorseSymbol list \<Rightarrow> string" where
  "spec_render buffer = map spec_symbol buffer"

text \<open>
  Holding a switch. \<open>on_press\<close> starts the fast-repeat timer with \<open>start(100)\<close>, so its
  timeouts are due 100, 200, ... milliseconds after the press. The events of a held switch are
  the press, the timeouts delivered while it is held, and the release. How many timeouts are
  delivered is not decided by the handlers: those due before the release are, and the one due
  at the very instant of the release may be handled before the release or never, since
  nothing orders the timer's timeout and the release signal.
\<close>

definition fast_morse_interval :: nat where
  "fast_morse_interval = 100"

definition hold :: "string \<Rightarrow> nat \<Rightarrow> rat \<Rightarrow> nat \<Rightarrow> nat \<Rightarrow> event list" where
  "hold key role t0 held_ms n =
     Press key role t0
     # replicate n FastMorseTimeout
     @ [Release key role (t0 + of_nat held_ms / 1000)]"

definition deliverable :: "nat \<Rightarrow> nat \<Rightarrow> bool" where
  "deliverable held_ms n \<longleftrightarrow>
     (held_ms - 1) div fast_morse_interval \<le> n \<and> n \<le> held_ms div fast_morse_interval"

subsection \<open>Concrete configurations\<close>

text \<open>The default timing (\<open>maxDitTime\<close> 350 ms) with a chosen key mode and fast-repeat
  setting.\<close>

definition example_env :: "InputMode \<Rightarrow> bool \<Rightarrow> env" where
  "example_env mode fast =
     \<lparr>fastMorseMode = fast, maxDitTime = 350, keySelection = mode,
      predict = (\<lambda>t. Some []), is_pressed = (\<lambda>k. False)\<rparr>"

text \<open>A pointer layout: one Dit moves up, one Dah moves down, Dit Dah turns sticky repeat
  on.\<close>

definition mouse_layout :: "(string \<times> layout) list" where
  "mouse_layout =
     [(''mouse'',
       \<lparr>items = Some
          [\<lparr>code = Some ''1'', item_action = Some (ActionLegacy ''MOUSEUP5'')\<rparr>,
           \<lparr>code = Some ''2'', item_action = Some (ActionLegacy ''MOUSEDOWN5'')\<rparr>,
           \<lparr>code = Some ''12'', item_action = Some RepeatOnAction\<rparr>]\<rparr>)]"

text \<open>A layout whose only entry is written with dot and dash.\<close>

definition dotdash_layout :: "(string \<times> layout) list" where
  "dotdash_layout =
     [(''mouse'',
       \<lparr>items = Some
          [\<lparr>code = Some ''.-'', item_action = Some (ActionLegacy ''MOUSEUP5'')\<rparr>]\<rparr>)]"

text \<open>A fresh text state with the abbreviation table \<open>{"brb": "be right back"}\<close>.\<close>

definition brb_typestate :: TypeState where
  "brb_typestate =
     \<lparr>ts_text = [], predictions = None, abbreviations = [(''brb'', ''be right back'')],
      expanded_text = ExpNone, keyLength = Some 0\<rparr>"

text \<open>A text state in which \<open>hel\<close> has been typed and the prediction list is \<open>["hello"]\<close>.\<close>

definition hel_typestate :: TypeState where
  "hel_typestate =
     \<lparr>ts_text = ''hel'', predictions = Some [''hello''], abbreviations = [],
      expanded_text = ExpNone, keyLength = Some 0\<rparr>"

text \<open>Three-key input with the third key held through one fast-repeat timeout: Dit, end of
  character; Dit, Dah, end of character with the key held for at least 100 ms; then a new
  press.\<close>

definition held_end_key_events :: "event list" where
  "held_end_key_events =
     [Press ''space'' 0 0, Release ''space'' 0 (1 / 20),
      Press ''right ctrl'' 2 1, Release ''right ctrl'' 2 (21 / 20),
      Press ''space'' 0 2, Release ''space'' 0 (41 / 20),
      Press ''enter'' 1 3, Release ''enter'' 1 (61 / 20),
      Press ''right ctrl'' 2 4, FastMorseTimeout, Release ''right ctrl'' 2 (83 / 20),
      Press ''space'' 0 5]"

section \<open>Single-key classification\<close>

text \<open>
  C1. In one-key mode a press that opens (no press open, input not disabled, not the disable
  key) emits nothing and records its time, and its release appends exactly one symbol: Dit
  when the measured duration \<open>(release time - press time) * 1000\<close> is strictly below
  \<open>maxDitTime\<close>, Dah otherwise, so a duration equal to \<open>maxDitTime\<close> gives Dah. The same holds
  for a release in any state that has a press open, whatever happened since the press.
\<close>

theorem onekey_release_classifies:
  assumes "keySelection e = OneKey"
    and "lastKeyDownTime s = None"
    and "\<not> inputDisabled s"
    and "key \<noteq> ''P''"
  shows "currentCharacter (on_press e key role t0 s) = currentCharacter s
       \<and> lastKeyDownTime (on_press e key role t0 s) = Some t0
       \<and> currentCharacter (on_release e key role t1 (on_press e key role t0 s))
           = currentCharacter s @ [if (t1 - t0) * 1000 < maxDitTime e then Dit else Dah]
       \<and> (\<forall>s' t. lastKeyDownTime s' = Some t \<longrightarrow>
            currentCharacter (on_release e key role t1 s')
              = currentCharacter s' @ [if (t1 - t) * 1000 < maxDitTime e then Dit else Dah])"
  using assms
  by (simp add: on_press_def on_release_def check_disable_combination_def Let_def
      addDit_def addDah_def startEndCharacterTimer_def)

theorem onekey_release_classifies_witness:
  "keySelection (example_env OneKey False) = OneKey
   \<and> currentCharacter
       (on_release (example_env OneKey False) ''space'' 0 (35 / 100)
          (on_press (example_env OneKey False) ''space'' 0 0 (initial mouse_layout ''mouse'' None)))
     = [Dah]
   \<and> currentCharacter
       (on_release (example_env OneKey False) ''space'' 0 (349 / 1000)
          (on_press (example_env OneKey False) ''space'' 0 0 (initial mouse_layout ''mouse'' None)))
     = [Dit]"
  using onekey_release_classifies [of "example_env OneKey False" "initial mouse_layout ''mouse'' None"
      "''space''" 0 0 "35 / 100"]
    onekey_release_classifies [of "example_env OneKey False" "initial mouse_layout ''mouse'' None"
      "''space''" 0 0 "349 / 1000"]
  by (simp add: example_env_def initial_def)

section \<open>What performing an action leaves alone\<close>

lemma ActionKeyStroke_perform_frame:
  "engine_eq (ActionKeyStroke_perform e ch key tog s) s"
  by (auto simp: ActionKeyStroke_perform_def engine_eq_def send_def Let_def
      split: option.splits expanded.splits prod.splits)

lemma perform_frame: "engine_eq (perform e a s) s"
proof (cases a)
  case (ActionKeyStroke ch key tog)
  then show ?thesis by (simp add: ActionKeyStroke_perform_frame)
next
  case (ActionLegacy key)
  then show ?thesis
    by (simp add: ActionLegacy_perform_def send_def engine_eq_def split: option.splits)
next
  case (ChangeLayoutAction n)
  then show ?thesis by (simp add: changeLayout_def engine_eq_def)
next
  case (PredictionSelectLayoutAction t)
  then show ?thesis
    by (simp add: PredictionSelectLayoutAction_perform_def engine_eq_def Let_def
        split: option.splits prod.splits)
next
  case RepeatOnAction
  then show ?thesis by (simp add: enableRepeatMode_def engine_eq_def)
qed

lemma engine_eq_refl: "engine_eq s s"
  by (simp add: engine_eq_def)

lemma handleMorseCode_frame: "engine_eq (handleMorseCode e c s) s"
  by (simp add: handleMorseCode_def Let_def perform_frame engine_eq_refl
      split: sum.splits option.splits)

lemma handleMorseCode_fields [simp]:
  "repeat_character_timer (handleMorseCode e c s) = repeat_character_timer s"
  "orphaned_repeat_timers (handleMorseCode e c s) = orphaned_repeat_timers s"
  "inputDisabled (handleMorseCode e c s) = inputDisabled s"
  "lastKeyDownTime (handleMorseCode e c s) = lastKeyDownTime s"
  "fast_morse_mode_timer (handleMorseCode e c s) = fast_morse_mode_timer s"
  "endCharacterTimer (handleMorseCode e c s) = endCharacterTimer s"
  "currentCharacter (handleMorseCode e c s) = currentCharacter s"
  "previousCharacter (handleMorseCode e c s) = previousCharacter s"
  "layouts (handleMorseCode e c s) = layouts s"
  "endCharacter_count (handleMorseCode e c s) = endCharacter_count s"
  using handleMorseCode_frame [of e c s] by (simp_all add: engine_eq_def)

lemma handleMorseCode_empty [simp]: "handleMorseCode e [] s = s"
  by (simp add: handleMorseCode_def morse_code_of_def)

lemma find_item_None: "\<forall>it \<in> set its. code it \<noteq> Some m \<Longrightarrow> find_item its m = None"
  by (simp add: find_item_def find_None_iff)

lemma find_item_Some: "find_item its m = Some it \<Longrightarrow> it \<in> set its \<and> code it = Some m"
  by (auto simp: find_item_def find_Some_iff)

lemma morse_code_of_inj: "morse_code_of c = morse_code_of c' \<Longrightarrow> c = c'"
proof (induction c arbitrary: c')
  case Nil
  then show ?case by (simp add: morse_code_of_def)
next
  case (Cons x xs)
  then obtain y ys where c': "c' = y # ys" by (cases c') (auto simp: morse_code_of_def)
  with Cons.prems have "str_symbol x = str_symbol y" "morse_code_of xs = morse_code_of ys"
    by (simp_all add: morse_code_of_def)
  then show ?case using Cons.IH c' by (cases x; cases y) auto
qed

lemma codetocode_morse_code_of: "codetocode (morse_code_of c) = spec_render c"
proof (induction c)
  case Nil
  then show ?case by (simp add: codetocode_def morse_code_of_def spec_render_def)
next
  case (Cons x xs)
  then show ?case by (cases x) (simp_all add: codetocode_def morse_code_of_def spec_render_def)
qed

section \<open>Resolving a code\<close>

text \<open>
  The lookup string is not the dot-and-dash rendering: for the buffer Dit Dah it is \<open>12\<close>. A
  layout whose entry is written \<open>.-\<close> matches the dot-and-dash rendering exactly, and yet
  \<open>handleMorseCode\<close> dispatches nothing for that buffer.
\<close>

theorem lookup_follows_dot_dash_counterexample:
  "spec_render [Dit, Dah] = ''.-''
   \<and> find_item [\<lparr>code = Some ''.-'', item_action = Some (ActionLegacy ''MOUSEUP5'')\<rparr>]
        (spec_render [Dit, Dah])
       = Some \<lparr>code = Some ''.-'', item_action = Some (ActionLegacy ''MOUSEUP5'')\<rparr>
   \<and> get_active_layout (initial dotdash_layout ''mouse'' None)
       = Inr \<lparr>items = Some [\<lparr>code = Some ''.-'', item_action = Some (ActionLegacy ''MOUSEUP5'')\<rparr>]\<rparr>
   \<and> handleMorseCode (example_env TwoKey False) [Dit, Dah] (initial dotdash_layout ''mouse'' None)
       = initial dotdash_layout ''mouse'' None
   \<and> morse_code_of [Dit, Dah] = ''12''"
  by (simp add: spec_render_def find_item_def get_active_layout_def initial_def dotdash_layout_def
      handleMorseCode_def morse_code_of_def)

text \<open>
  C2, as the code has it. At finalization the buffer is rendered to a string with the digit
  \<open>1\<close> for each Dit and \<open>2\<close> for each Dah; the dot-and-dash form is what \<open>codetocode\<close>
  makes of that string for display. The digit string is looked up by exact match against the
  codes of the active layout's entries: without an entry of exactly that code nothing is
  dispatched, two buffers never share an entry, and when an entry matches, the action of the
  first such entry is the one performed.
\<close>

theorem handleMorseCode_exact_digit_match:
  assumes "get_active_layout s = Inr l"
    and "its = (case items l of None \<Rightarrow> [] | Some xs \<Rightarrow> xs)"
  shows "length (morse_code_of c) = length c
       \<and> (\<forall>i < length c. morse_code_of c ! i = (if c ! i = Dit then CHR ''1'' else CHR ''2''))
       \<and> codetocode (morse_code_of c) = spec_render c
       \<and> ((\<forall>it \<in> set its. code it \<noteq> Some (morse_code_of c)) \<longrightarrow> handleMorseCode e c s = s)
       \<and> (\<forall>c'. (\<exists>it \<in> set its. code it = Some (morse_code_of c') \<and> code it = Some (morse_code_of c))
              \<longrightarrow> c' = c)
       \<and> (\<forall>it a. c \<noteq> [] \<and> find_item its (morse_code_of c) = Some it \<and> item_action it = Some a
              \<longrightarrow> handleMorseCode e c s = perform e a s)"
proof -
  have sym: "\<And>x. str_symbol x = (if x = Dit then CHR ''1'' else CHR ''2'')"
    by (case_tac x) simp_all
  have a: "length (morse_code_of c) = length c" by (simp add: morse_code_of_def)
  have b: "\<forall>i < length c. morse_code_of c ! i = (if c ! i = Dit then CHR ''1'' else CHR ''2'')"
    by (simp add: morse_code_of_def sym)
  have d: "(\<forall>it \<in> set its. code it \<noteq> Some (morse_code_of c)) \<longrightarrow> handleMorseCode e c s = s"
    using assms by (simp add: handleMorseCode_def Let_def find_item_None)
  have f: "\<forall>c'. (\<exists>it \<in> set its. code it = Some (morse_code_of c') \<and> code it = Some (morse_code_of c))
              \<longrightarrow> c' = c"
    by (auto dest: morse_code_of_inj)
  have g: "\<forall>it a. c \<noteq> [] \<and> find_item its (morse_code_of c) = Some it \<and> item_action it = Some a
              \<longrightarrow> handleMorseCode e c s = perform e a s"
    using assms by (auto simp: handleMorseCode_def Let_def morse_code_of_def)
  show ?thesis using a b codetocode_morse_code_of d f g by blast
qed

theorem handleMorseCode_exact_digit_match_witness:
  "get_active_layout (initial mouse_layout ''mouse'' None)
     = Inr \<lparr>items = Some
          [\<lparr>code = Some ''1'', item_action = Some (ActionLegacy ''MOUSEUP5'')\<rparr>,
           \<lparr>code = Some ''2'', item_action = Some (ActionLegacy ''MOUSEDOWN5'')\<rparr>,
           \<lparr>code = Some ''12'', item_action = Some RepeatOnAction\<rparr>]\<rparr>
   \<and> find_item [\<lparr>code = Some ''1'', item_action = Some (ActionLegacy ''MOUSEUP5'')\<rparr>,
           \<lparr>code = Some ''2'', item_action = Some (ActionLegacy ''MOUSEDOWN5'')\<rparr>,
           \<lparr>code = Some ''12'', item_action = Some RepeatOnAction\<rparr>] (morse_code_of [Dit, Dah])
       = Some \<lparr>code = Some ''12'', item_action = Some RepeatOnAction\<rparr>
   \<and> handleMorseCode (example_env TwoKey False) [Dit, Dah] (initial mouse_layout ''mouse'' None)
       = perform (example_env TwoKey False) RepeatOnAction (initial mouse_layout ''mouse'' None)
   \<and> handleMorseCode (example_env TwoKey False) [Dit, Dit] (initial mouse_layout ''mouse'' None)
       = initial mouse_layout ''mouse'' None
   \<and> codetocode (morse_code_of [Dit, Dah]) = ''.-''"
proof -
  let ?its = "[\<lparr>code = Some ''1'', item_action = Some (ActionLegacy ''MOUSEUP5'')\<rparr>,
           \<lparr>code = Some ''2'', item_action = Some (ActionLegacy ''MOUSEDOWN5'')\<rparr>,
           \<lparr>code = Some ''12'', item_action = Some RepeatOnAction\<rparr>]"
  have l: "get_active_layout (initial mouse_layout ''mouse'' None) = Inr \<lparr>items = Some ?its\<rparr>"
    by (simp add: get_active_layout_def initial_def mouse_layout_def)
  have i: "?its = (case items \<lparr>items = Some ?its\<rparr> of None \<Rightarrow> [] | Some xs \<Rightarrow> xs)" by simp
  have fi: "find_item ?its (morse_code_of [Dit, Dah])
      = Some \<lparr>code = Some ''12'', item_action = Some RepeatOnAction\<rparr>"
    by (simp add: find_item_def morse_code_of_def)
  have no: "\<forall>it \<in> set ?its. code it \<noteq> Some (morse_code_of [Dit, Dit])"
    by (simp add: morse_code_of_def)
  show ?thesis
    using handleMorseCode_exact_digit_match [OF l i, of "[Dit, Dah]" "example_env TwoKey False"]
      handleMorseCode_exact_digit_match [OF l i, of "[Dit, Dit]" "example_env TwoKey False"]
      l fi no
    by (simp add: spec_render_def)
qed

section \<open>Finalizing a character\<close>

lemma endCharacter_fields [simp]:
  "endCharacterTimer (endCharacter e s) = False"
  "currentCharacter (endCharacter e s) = []"
  "endCharacter_count (endCharacter e s) = Suc (endCharacter_count s)"
  "lastKeyDownTime (endCharacter e s) = lastKeyDownTime s"
  "fast_morse_mode_timer (endCharacter e s) = fast_morse_mode_timer s"
  "inputDisabled (endCharacter e s) = inputDisabled s"
  "layouts (endCharacter e s) = layouts s"
  by (simp_all add: endCharacter_def Let_def)

lemma addDit_fields [simp]:
  "endCharacterTimer (addDit s) = endCharacterTimer s"
  "endCharacter_count (addDit s) = endCharacter_count s"
  "fast_morse_mode_timer (addDit s) = fast_morse_mode_timer s"
  "lastKeyDownTime (addDit s) = lastKeyDownTime s"
  "currentCharacter (addDit s) = currentCharacter s @ [Dit]"
  by (simp_all add: addDit_def)

lemma addDah_fields [simp]:
  "endCharacterTimer (addDah s) = endCharacterTimer s"
  "endCharacter_count (addDah s) = endCharacter_count s"
  "fast_morse_mode_timer (addDah s) = fast_morse_mode_timer s"
  "lastKeyDownTime (addDah s) = lastKeyDownTime s"
  "currentCharacter (addDah s) = currentCharacter s @ [Dah]"
  by (simp_all add: addDah_def)

lemma run_snoc: "run e s (evs @ [ev]) = step e (run e s evs) ev"
  by (simp add: run_def)

lemma run_Nil: "run e s [] = s"
  by (simp add: run_def)

lemma run_Cons: "run e s (ev # evs) = run e (step e s ev) evs"
  by (simp add: run_def)

section \<open>Three-key mode\<close>

lemma threekey_step_timer:
  assumes "keySelection e = ThreeKey" and "\<not> endCharacterTimer s"
  shows "\<not> endCharacterTimer (step e s ev)"
proof (cases ev)
  case (Press key role now)
  then show ?thesis using assms
    by (simp add: on_press_def check_disable_combination_def Let_def)
next
  case (Release key role now)
  then show ?thesis using assms
    by (simp add: on_release_def Let_def split: option.splits)
next
  case EndCharacterTimeout
  then show ?thesis using assms by simp
next
  case FastMorseTimeout
  then show ?thesis using assms
    by (simp add: repeat_key_def split: option.splits prod.splits)
next
  case RepeatCharacterTimeout
  then show ?thesis using assms by simp
qed

lemma threekey_run_timer:
  assumes "keySelection e = ThreeKey" and "\<not> endCharacterTimer s"
  shows "\<not> endCharacterTimer (run e s evs)"
proof (induction evs rule: rev_induct)
  case Nil
  then show ?case using assms by (simp add: run_Nil)
next
  case (snoc ev evs)
  then show ?case using assms(1) by (simp add: run_snoc threekey_step_timer)
qed

lemma threekey_finalization_cause:
  assumes "keySelection e = ThreeKey" and "\<not> endCharacterTimer s"
    and "endCharacter_count (step e s ev) \<noteq> endCharacter_count s"
  shows "(\<exists>key now. ev = Press key 2 now)
       \<or> (ev = FastMorseTimeout \<and> (\<exists>key. fast_morse_mode_timer s = Some (key, 2)))"
proof (cases ev)
  case (Press key role now)
  then show ?thesis using assms
    by (auto simp: on_press_def check_disable_combination_def Let_def split: if_splits)
next
  case (Release key role now)
  then show ?thesis using assms
    by (simp add: on_release_def Let_def split: option.splits)
next
  case EndCharacterTimeout
  then show ?thesis using assms by simp
next
  case FastMorseTimeout
  then show ?thesis using assms
    by (auto simp: repeat_key_def split: option.splits prod.splits if_splits)
next
  case RepeatCharacterTimeout
  then show ?thesis using assms by (simp split: if_splits)
qed

lemma fast_timer_origin:
  assumes "fast_morse_mode_timer (step e s ev) = Some (key, role)"
  shows "fast_morse_mode_timer s = Some (key, role) \<or> (\<exists>now. ev = Press key role now)"
proof (cases ev)
  case (Press k r now)
  then show ?thesis using assms
    by (auto simp: on_press_def check_disable_combination_def Let_def split: if_splits)
next
  case (Release k r now)
  then show ?thesis using assms
    by (simp add: on_release_def Let_def startEndCharacterTimer_def addDit_def addDah_def
        split: option.splits if_splits)
next
  case EndCharacterTimeout
  then show ?thesis using assms by (simp split: if_splits)
next
  case FastMorseTimeout
  then show ?thesis using assms
    by (auto simp: repeat_key_def split: option.splits prod.splits if_splits)
next
  case RepeatCharacterTimeout
  then show ?thesis using assms by (simp split: if_splits)
qed

lemma tertiary_press_finalizes:
  assumes "keySelection e \<noteq> OneKey" and "lastKeyDownTime s = None" and "\<not> inputDisabled s"
    and "key \<noteq> ''P''"
  shows "endCharacter_count (step e s (Press key 2 now)) = Suc (endCharacter_count s)
       \<and> currentCharacter (step e s (Press key 2 now)) = []"
  using assms by (simp add: on_press_def check_disable_combination_def Let_def)

text \<open>
  C3. In three-key mode, starting without a running boundary timer, no sequence of events
  ever starts one, so its timeout is never delivered and changes nothing. A run of
  \<open>endCharacter\<close> is caused only by a press of role 2 or by a fast-repeat timeout of a timer
  that captured role 2, and such a timer only comes from a press of role 2 that is still
  held. A role-2 press that opens does finalize: the buffer is empty afterwards.
\<close>

theorem threekey_never_finalizes_by_timeout:
  assumes "keySelection e = ThreeKey" and "\<not> endCharacterTimer s"
  shows "\<not> endCharacterTimer (run e s evs)
       \<and> step e (run e s evs) EndCharacterTimeout = run e s evs
       \<and> (\<forall>ev. endCharacter_count (step e (run e s evs) ev) \<noteq> endCharacter_count (run e s evs)
             \<longrightarrow> (\<exists>key now. ev = Press key 2 now)
                 \<or> (ev = FastMorseTimeout
                     \<and> (\<exists>key. fast_morse_mode_timer (run e s evs) = Some (key, 2))))
       \<and> (\<forall>ev key role. fast_morse_mode_timer (step e (run e s evs) ev) = Some (key, role)
             \<longrightarrow> fast_morse_mode_timer (run e s evs) = Some (key, role)
                 \<or> (\<exists>now. ev = Press key role now))
       \<and> (\<forall>key now. lastKeyDownTime (run e s evs) = None \<and> \<not> inputDisabled (run e s evs)
               \<and> key \<noteq> ''P''
             \<longrightarrow> endCharacter_count (step e (run e s evs) (Press key 2 now))
                   = Suc (endCharacter_count (run e s evs))
                 \<and> currentCharacter (step e (run e s evs) (Press key 2 now)) = [])"
proof -
  let ?s = "run e s evs"
  have t: "\<not> endCharacterTimer ?s"
    using assms by (rule threekey_run_timer)
  have m: "keySelection e \<noteq> OneKey" using assms(1) by simp
  have a: "step e ?s EndCharacterTimeout = ?s" using t by simp
  have b: "\<forall>ev. endCharacter_count (step e ?s ev) \<noteq> endCharacter_count ?s
             \<longrightarrow> (\<exists>key now. ev = Press key 2 now)
                 \<or> (ev = FastMorseTimeout
                     \<and> (\<exists>key. fast_morse_mode_timer ?s = Some (key, 2)))"
    using threekey_finalization_cause [OF assms(1) t] by blast
  have c: "\<forall>ev key role. fast_morse_mode_timer (step e ?s ev) = Some (key, role)
             \<longrightarrow> fast_morse_mode_timer ?s = Some (key, role)
                 \<or> (\<exists>now. ev = Press key role now)"
    using fast_timer_origin by blast
  have d: "\<forall>key now. lastKeyDownTime ?s = None \<and> \<not> inputDisabled ?s \<and> key \<noteq> ''P''
             \<longrightarrow> endCharacter_count (step e ?s (Press key 2 now)) = Suc (endCharacter_count ?s)
                 \<and> currentCharacter (step e ?s (Press key 2 now)) = []"
    using tertiary_press_finalizes [OF m] by blast
  from t a b c d show ?thesis by (intro conjI)
qed

theorem threekey_never_finalizes_by_timeout_witness:
  "keySelection (example_env ThreeKey False) = ThreeKey
   \<and> \<not> endCharacterTimer (initial mouse_layout ''mouse'' None)
   \<and> \<not> endCharacterTimer
         (run (example_env ThreeKey False) (initial mouse_layout ''mouse'' None)
            [Press ''space'' 0 0, Release ''space'' 0 (1 / 10),
             Press ''space'' 0 1, Release ''space'' 0 (11 / 10)])
   \<and> currentCharacter
         (run (example_env ThreeKey False) (initial mouse_layout ''mouse'' None)
            [Press ''space'' 0 0, Release ''space'' 0 (1 / 10),
             Press ''space'' 0 1, Release ''space'' 0 (11 / 10)]) = [Dit, Dit]
   \<and> step (example_env ThreeKey False)
         (run (example_env ThreeKey False) (initial mouse_layout ''mouse'' None)
            [Press ''space'' 0 0, Release ''space'' 0 (1 / 10),
             Press ''space'' 0 1, Release ''space'' 0 (11 / 10)]) EndCharacterTimeout
       = run (example_env ThreeKey False) (initial mouse_layout ''mouse'' None)
            [Press ''space'' 0 0, Release ''space'' 0 (1 / 10),
             Press ''space'' 0 1, Release ''space'' 0 (11 / 10)]
   \<and> currentCharacter
         (step (example_env ThreeKey False)
            (run (example_env ThreeKey False) (initial mouse_layout ''mouse'' None)
               [Press ''space'' 0 0, Release ''space'' 0 (1 / 10),
                Press ''space'' 0 1, Release ''space'' 0 (11 / 10)])
            (Press ''right ctrl'' 2 2)) = []
   \<and> endCharacter_count
         (step (example_env ThreeKey False)
            (run (example_env ThreeKey False) (initial mouse_layout ''mouse'' None)
               [Press ''space'' 0 0, Release ''space'' 0 (1 / 10),
                Press ''space'' 0 1, Release ''space'' 0 (11 / 10)])
            (Press ''right ctrl'' 2 2)) = 1"
proof -
  let ?e = "example_env ThreeKey False"
  let ?s = "initial mouse_layout ''mouse'' None"
  let ?evs = "[Press ''space'' 0 0, Release ''space'' 0 (1 / 10),
               Press ''space'' 0 1, Release ''space'' 0 (11 / 10)]"
  have k: "keySelection ?e = ThreeKey" by (simp add: example_env_def)
  have i: "\<not> endCharacterTimer ?s" by (simp add: initial_def)
  have r: "run ?e ?s ?evs = ?s\<lparr>currentCharacter := [Dit, Dit]\<rparr>"
    by (simp add: run_def on_press_def on_release_def check_disable_combination_def Let_def
        example_env_def initial_def addDit_def)
  have o: "lastKeyDownTime (run ?e ?s ?evs) = None \<and> \<not> inputDisabled (run ?e ?s ?evs)
      \<and> ''right ctrl'' \<noteq> ''P''"
    by (simp add: r) (simp add: initial_def)
  have c: "endCharacter_count (run ?e ?s ?evs) = 0"
    by (simp add: r) (simp add: initial_def)
  show ?thesis
    using threekey_never_finalizes_by_timeout [OF k i, of ?evs] k i o c
    by (simp add: r)
qed

section \<open>Unmatched codes and empty buffers\<close>

lemma handleMorseCode_unmatched:
  assumes "get_active_layout s = Inr l"
    and "\<forall>it \<in> set (case items l of None \<Rightarrow> [] | Some xs \<Rightarrow> xs). code it \<noteq> Some (morse_code_of c)"
  shows "handleMorseCode e c s = s"
  using assms by (simp add: handleMorseCode_def Let_def find_item_None)

text \<open>
  C4. When the code of the buffer matches no entry of the active layout, \<open>handleMorseCode\<close>
  returns the state as it was (nothing is synthesized, the text states, the active layout and
  the repeat flag are untouched), and \<open>endCharacter\<close> still empties the code buffer and leaves
  no boundary timer running: no character is open afterwards. With the repeat flag off, no
  sticky-repeat timer is started either, and the unmatched code is what is kept as the previous
  character.
\<close>

theorem unmatched_code_is_dropped:
  assumes "get_active_layout s = Inr l"
    and "\<forall>it \<in> set (case items l of None \<Rightarrow> [] | Some xs \<Rightarrow> xs).
           code it \<noteq> Some (morse_code_of (currentCharacter s))"
  shows "handleMorseCode e (currentCharacter s) s = s
       \<and> synthesized (endCharacter e s) = synthesized s
       \<and> typestate (endCharacter e s) = typestate s
       \<and> module_typestate (endCharacter e s) = module_typestate s
       \<and> active_layout_name (endCharacter e s) = active_layout_name s
       \<and> repeaton (endCharacter e s) = repeaton s
       \<and> currentCharacter (endCharacter e s) = []
       \<and> \<not> endCharacterTimer (endCharacter e s)
       \<and> (\<not> repeaton s \<longrightarrow>
            repeat_character_timer (endCharacter e s) = repeat_character_timer s
            \<and> orphaned_repeat_timers (endCharacter e s) = orphaned_repeat_timers s
            \<and> previousCharacter (endCharacter e s) = currentCharacter s)"
proof -
  let ?s1 = "s\<lparr>endCharacterTimer := False, endCharacter_count := Suc (endCharacter_count s)\<rparr>"
  have h: "handleMorseCode e (currentCharacter s) s = s"
    using assms by (rule handleMorseCode_unmatched)
  have l1: "get_active_layout ?s1 = Inr l"
    using assms(1) by (auto simp: get_active_layout_def split: option.splits if_splits)
  have h1: "handleMorseCode e (currentCharacter ?s1) ?s1 = ?s1"
    using l1 assms(2) by (intro handleMorseCode_unmatched) simp_all
  show ?thesis
    using h h1 by (simp add: endCharacter_def Let_def)
qed

theorem unmatched_code_is_dropped_witness:
  "get_active_layout
     (run (example_env TwoKey False) (initial mouse_layout ''mouse'' None)
        [Press ''space'' 0 0, Release ''space'' 0 (1 / 10),
         Press ''space'' 0 (1 / 5), Release ''space'' 0 (3 / 10)])
     = Inr \<lparr>items = Some
          [\<lparr>code = Some ''1'', item_action = Some (ActionLegacy ''MOUSEUP5'')\<rparr>,
           \<lparr>code = Some ''2'', item_action = Some (ActionLegacy ''MOUSEDOWN5'')\<rparr>,
           \<lparr>code = Some ''12'', item_action = Some RepeatOnAction\<rparr>]\<rparr>
   \<and> currentCharacter
       (run (example_env TwoKey False) (initial mouse_layout ''mouse'' None)
          [Press ''space'' 0 0, Release ''space'' 0 (1 / 10),
           Press ''space'' 0 (1 / 5), Release ''space'' 0 (3 / 10)]) = [Dit, Dit]
   \<and> endCharacterTimer
       (run (example_env TwoKey False) (initial mouse_layout ''mouse'' None)
          [Press ''space'' 0 0, Release ''space'' 0 (1 / 10),
           Press ''space'' 0 (1 / 5), Release ''space'' 0 (3 / 10)])
   \<and> run (example_env TwoKey False) (initial mouse_layout ''mouse'' None)
        [Press ''space'' 0 0, Release ''space'' 0 (1 / 10),
         Press ''space'' 0 (1 / 5), Release ''space'' 0 (3 / 10), EndCharacterTimeout]
     = (initial mouse_layout ''mouse'' None)
          \<lparr>previousCharacter := [Dit, Dit], endCharacter_count := 1\<rparr>"
proof -
  let ?e = "example_env TwoKey False"
  let ?s0 = "initial mouse_layout ''mouse'' None"
  let ?evs = "[Press ''space'' 0 0, Release ''space'' 0 (1 / 10),
               Press ''space'' 0 (1 / 5), Release ''space'' 0 (3 / 10)]"
  let ?its = "[\<lparr>code = Some ''1'', item_action = Some (ActionLegacy ''MOUSEUP5'')\<rparr>,
           \<lparr>code = Some ''2'', item_action = Some (ActionLegacy ''MOUSEDOWN5'')\<rparr>,
           \<lparr>code = Some ''12'', item_action = Some RepeatOnAction\<rparr>]"
  have r: "run ?e ?s0 ?evs = ?s0\<lparr>endCharacterTimer := True, currentCharacter := [Dit, Dit]\<rparr>"
    by (simp add: run_def on_press_def on_release_def check_disable_combination_def Let_def
        example_env_def initial_def addDit_def startEndCharacterTimer_def)
  have l: "get_active_layout (run ?e ?s0 ?evs) = Inr \<lparr>items = Some ?its\<rparr>"
    unfolding r by (simp add: get_active_layout_def initial_def mouse_layout_def)
  have n: "\<forall>it \<in> set (case items \<lparr>items = Some ?its\<rparr> of None \<Rightarrow> [] | Some xs \<Rightarrow> xs).
             code it \<noteq> Some (morse_code_of (currentCharacter (run ?e ?s0 ?evs)))"
    unfolding r by (simp add: morse_code_of_def)
  have h: "handleMorseCode ?e [Dit, Dit]
             (?s0\<lparr>currentCharacter := [Dit, Dit], endCharacterTimer := False,
                  endCharacter_count := Suc 0\<rparr>)
           = ?s0\<lparr>currentCharacter := [Dit, Dit], endCharacterTimer := False,
                  endCharacter_count := Suc 0\<rparr>"
    by (simp add: handleMorseCode_def Let_def morse_code_of_def get_active_layout_def initial_def
        mouse_layout_def find_item_def)
  have f: "run ?e ?s0 (?evs @ [EndCharacterTimeout])
      = ?s0\<lparr>previousCharacter := [Dit, Dit], endCharacter_count := 1\<rparr>"
    using unmatched_code_is_dropped [OF l n, of ?e] h
    unfolding run_snoc r by (simp add: endCharacter_def Let_def) (simp add: initial_def)
  have c: "currentCharacter (run ?e ?s0 ?evs) = [Dit, Dit]" "endCharacterTimer (run ?e ?s0 ?evs)"
    unfolding r by simp_all
  show ?thesis using unmatched_code_is_dropped [OF l n, of ?e] l f c by simp
qed

text \<open>
  Finalizing an empty buffer changes the state. In three-key mode, after Dit and a role-2
  press the previous character is Dit; a second role-2 press, on the empty buffer, overwrites
  it with the empty code. In two-key mode the release of the third key starts the boundary
  timer, whose timeout then finalizes the empty buffer with the same effect.
\<close>

theorem empty_finalization_changes_state_counterexample:
  "currentCharacter
     (run (example_env ThreeKey False) (initial mouse_layout ''mouse'' None)
        [Press ''space'' 0 0, Release ''space'' 0 (1 / 10),
         Press ''right ctrl'' 2 1, Release ''right ctrl'' 2 (11 / 10)]) = []
   \<and> previousCharacter
       (run (example_env ThreeKey False) (initial mouse_layout ''mouse'' None)
          [Press ''space'' 0 0, Release ''space'' 0 (1 / 10),
           Press ''right ctrl'' 2 1, Release ''right ctrl'' 2 (11 / 10)]) = [Dit]
   \<and> previousCharacter
       (run (example_env ThreeKey False) (initial mouse_layout ''mouse'' None)
          [Press ''space'' 0 0, Release ''space'' 0 (1 / 10),
           Press ''right ctrl'' 2 1, Release ''right ctrl'' 2 (11 / 10),
           Press ''right ctrl'' 2 2]) = []
   \<and> currentCharacter
       (run (example_env TwoKey False) (initial mouse_layout ''mouse'' None)
          [Press ''space'' 0 0, Release ''space'' 0 (1 / 10),
           Press ''right ctrl'' 2 (1 / 5), Release ''right ctrl'' 2 (3 / 10)]) = []
   \<and> endCharacterTimer
       (run (example_env TwoKey False) (initial mouse_layout ''mouse'' None)
          [Press ''space'' 0 0, Release ''space'' 0 (1 / 10),
           Press ''right ctrl'' 2 (1 / 5), Release ''right ctrl'' 2 (3 / 10)])
   \<and> previousCharacter
       (run (example_env TwoKey False) (initial mouse_layout ''mouse'' None)
          [Press ''space'' 0 0, Release ''space'' 0 (1 / 10),
           Press ''right ctrl'' 2 (1 / 5), Release ''right ctrl'' 2 (3 / 10)]) = [Dit]
   \<and> previousCharacter
       (run (example_env TwoKey False) (initial mouse_layout ''mouse'' None)
          [Press ''space'' 0 0, Release ''space'' 0 (1 / 10),
           Press ''right ctrl'' 2 (1 / 5), Release ''right ctrl'' 2 (3 / 10),
           EndCharacterTimeout]) = []"
  by (simp add: run_def on_press_def on_release_def check_disable_combination_def Let_def
      example_env_def initial_def addDit_def startEndCharacterTimer_def endCharacter_def
      handleMorseCode_def morse_code_of_def get_active_layout_def mouse_layout_def find_item_def
      ActionLegacy_perform_def action_map_def send_def)

text \<open>
  C5, as the code has it. Finalizing an empty buffer (\<open>endCharacter\<close>, which both the boundary
  timeout and a role-2 press run) dispatches nothing and never fails: nothing is synthesized,
  the text states, the active layout, the repeat flag, the open press, the fast-repeat timer
  and the input switch stay as they were, and the buffer stays empty. It is not without
  effect: the boundary timer attribute is cleared, the previous character is kept only while
  the repeat flag is on (otherwise it becomes the empty code), and with the flag on and a
  previous character present a sticky-repeat timer is started.
\<close>

theorem endCharacter_empty_buffer:
  assumes "currentCharacter s = []"
  shows "synthesized (endCharacter e s) = synthesized s
       \<and> typestate (endCharacter e s) = typestate s
       \<and> module_typestate (endCharacter e s) = module_typestate s
       \<and> active_layout_name (endCharacter e s) = active_layout_name s
       \<and> layouts (endCharacter e s) = layouts s
       \<and> repeaton (endCharacter e s) = repeaton s
       \<and> lastKeyDownTime (endCharacter e s) = lastKeyDownTime s
       \<and> fast_morse_mode_timer (endCharacter e s) = fast_morse_mode_timer s
       \<and> inputDisabled (endCharacter e s) = inputDisabled s
       \<and> currentCharacter (endCharacter e s) = []
       \<and> \<not> endCharacterTimer (endCharacter e s)
       \<and> previousCharacter (endCharacter e s) = (if repeaton s then previousCharacter s else [])
       \<and> repeat_character_timer (endCharacter e s)
           = (repeat_character_timer s \<or> (repeaton s \<and> previousCharacter s \<noteq> []))"
  using assms by (simp add: endCharacter_def Let_def)

theorem endCharacter_empty_buffer_witness:
  "currentCharacter ((initial mouse_layout ''mouse'' None)\<lparr>previousCharacter := [Dit]\<rparr>) = []
   \<and> endCharacter (example_env ThreeKey False)
        ((initial mouse_layout ''mouse'' None)\<lparr>previousCharacter := [Dit]\<rparr>)
     = (initial mouse_layout ''mouse'' None)\<lparr>endCharacter_count := 1\<rparr>
   \<and> previousCharacter
       (endCharacter (example_env ThreeKey False)
          ((initial mouse_layout ''mouse'' None)\<lparr>previousCharacter := [Dit], repeaton := True\<rparr>))
     = [Dit]
   \<and> repeat_character_timer
       (endCharacter (example_env ThreeKey False)
          ((initial mouse_layout ''mouse'' None)\<lparr>previousCharacter := [Dit], repeaton := True\<rparr>))"
proof -
  let ?e = "example_env ThreeKey False"
  let ?s = "(initial mouse_layout ''mouse'' None)\<lparr>previousCharacter := [Dit]\<rparr>"
  let ?t = "(initial mouse_layout ''mouse'' None)\<lparr>previousCharacter := [Dit], repeaton := True\<rparr>"
  have c: "currentCharacter ?s = []" by (simp add: initial_def)
  have d: "currentCharacter ?t = []" by (simp add: initial_def)
  have eq: "endCharacter ?e ?s = (initial mouse_layout ''mouse'' None)\<lparr>endCharacter_count := 1\<rparr>"
    by (simp add: endCharacter_def Let_def initial_def)
  have rp: "repeaton ?t" "previousCharacter ?t = [Dit]" "\<not> repeaton ?s"
    by (simp_all add: initial_def)
  show ?thesis
    using endCharacter_empty_buffer [OF c, of ?e] endCharacter_empty_buffer [OF d, of ?e] c eq rp
    by simp
qed

section \<open>Holding a switch with fast repeat\<close>

lemma run_append: "run e s (xs @ ys) = run e (run e s xs) ys"
  by (simp add: run_def)

lemma fast_timeouts_add_dits:
  assumes "fast_morse_mode_timer s = Some (key, 0)"
  shows "run e s (replicate n FastMorseTimeout)
       = s\<lparr>currentCharacter := currentCharacter s @ replicate n Dit\<rparr>"
  using assms
proof (induction n arbitrary: s)
  case 0
  then show ?case by (simp add: run_Nil)
next
  case (Suc n)
  have st: "step e s FastMorseTimeout = addDit s"
    using Suc.prems by (simp add: repeat_key_def)
  have ft: "fast_morse_mode_timer (addDit s) = Some (key, 0)"
    using Suc.prems by simp
  have "run e s (replicate (Suc n) FastMorseTimeout)
      = run e (addDit s) (replicate n FastMorseTimeout)"
    unfolding replicate_Suc run_Cons st ..
  also have "\<dots> = (addDit s)\<lparr>currentCharacter := currentCharacter (addDit s) @ replicate n Dit\<rparr>"
    by (rule Suc.IH [OF ft])
  also have "\<dots> = s\<lparr>currentCharacter := currentCharacter s @ replicate (Suc n) Dit\<rparr>"
    by (simp add: addDit_def)
  finally show ?case .
qed

lemma press_primary_fast:
  assumes "keySelection e \<noteq> OneKey" and "fastMorseMode e" and "lastKeyDownTime s = None"
    and "\<not> inputDisabled s" and "key \<noteq> ''P''"
  shows "on_press e key 0 t0 s
       = s\<lparr>repeaton := False, repeat_character_timer := False, lastKeyDownTime := Some t0,
           fast_morse_mode_timer := Some (key, 0),
           currentCharacter := currentCharacter s @ [Dit]\<rparr>"
  using assms by (simp add: on_press_def check_disable_combination_def Let_def addDit_def)

lemma release_after_fast_repeat:
  assumes "keySelection e = TwoKey" and "lastKeyDownTime s = Some t0"
  shows "on_release e key role t1 s
       = s\<lparr>fast_morse_mode_timer := None, lastKeyDownTime := None, endCharacterTimer := True\<rparr>"
  using assms by (simp add: on_release_def Let_def startEndCharacterTimer_def)

text \<open>A held primary switch with any number of delivered timeouts: one Dit for the press, one
  for each timeout, and the release stops the repetition.\<close>

lemma held_primary_appends:
  assumes "keySelection e = TwoKey" and "fastMorseMode e" and "lastKeyDownTime s = None"
    and "\<not> inputDisabled s" and "key \<noteq> ''P''"
  shows "run e s (hold key 0 t0 held_ms n)
       = s\<lparr>repeaton := False, repeat_character_timer := False, lastKeyDownTime := None,
           fast_morse_mode_timer := None, endCharacterTimer := True,
           currentCharacter := currentCharacter s @ replicate (Suc n) Dit\<rparr>"
proof -
  have m: "keySelection e \<noteq> OneKey" using assms(1) by simp
  let ?p = "on_press e key 0 t0 s"
  have p: "?p = s\<lparr>repeaton := False, repeat_character_timer := False, lastKeyDownTime := Some t0,
           fast_morse_mode_timer := Some (key, 0),
           currentCharacter := currentCharacter s @ [Dit]\<rparr>"
    using m assms(2-5) by (rule press_primary_fast)
  have ft: "fast_morse_mode_timer ?p = Some (key, 0)" by (simp add: p)
  let ?q = "?p\<lparr>currentCharacter := currentCharacter ?p @ replicate n Dit\<rparr>"
  have t: "run e ?p (replicate n FastMorseTimeout) = ?q"
    using ft by (rule fast_timeouts_add_dits)
  have o: "lastKeyDownTime ?q = Some t0" by (simp add: p)
  have r: "on_release e key 0 (t0 + of_nat held_ms / 1000) ?q
      = ?q\<lparr>fast_morse_mode_timer := None, lastKeyDownTime := None, endCharacterTimer := True\<rparr>"
    using assms(1) o by (rule release_after_fast_repeat)
  have "run e s (hold key 0 t0 held_ms n)
      = on_release e key 0 (t0 + of_nat held_ms / 1000) ?q"
    unfolding hold_def run_Cons run_append step.simps t by (simp add: run_def)
  also have "\<dots> = s\<lparr>repeaton := False, repeat_character_timer := False, lastKeyDownTime := None,
           fast_morse_mode_timer := None, endCharacterTimer := True,
           currentCharacter := currentCharacter s @ replicate (Suc n) Dit\<rparr>"
    unfolding r by (simp add: p replicate_app_Cons_same)
  finally show ?thesis .
qed

lemma deliverable_500: "deliverable 500 n \<longleftrightarrow> n = 4 \<or> n = 5"
  by (auto simp: deliverable_def fast_morse_interval_def)

text \<open>
  Holding the primary switch for 500 ms does not always append five Dits: the timeout due at
  500 ms may be handled before the release, and then the press and five timeouts append six.
\<close>

theorem fast_repeat_held_500ms_six_dits_counterexample:
  "deliverable 500 5
   \<and> currentCharacter
       (run (example_env TwoKey True) (initial mouse_layout ''mouse'' None)
          (hold ''space'' 0 0 500 5)) = [Dit, Dit, Dit, Dit, Dit, Dit]
   \<and> [Dit, Dit, Dit, Dit, Dit, Dit] \<noteq> [Dit, Dit, Dit, Dit, Dit]"
proof -
  have a: "keySelection (example_env TwoKey True) = TwoKey" "fastMorseMode (example_env TwoKey True)"
    by (simp_all add: example_env_def)
  have b: "lastKeyDownTime (initial mouse_layout ''mouse'' None) = None"
    "\<not> inputDisabled (initial mouse_layout ''mouse'' None)"
    by (simp_all add: initial_def)
  have k: "''space'' \<noteq> ''P''" by simp
  have c: "currentCharacter
       (run (example_env TwoKey True) (initial mouse_layout ''mouse'' None)
          (hold ''space'' 0 0 500 5)) = [Dit, Dit, Dit, Dit, Dit, Dit]"
    unfolding held_primary_appends [OF a b k]
    by (simp add: initial_def numeral_eq_Suc)
  show ?thesis using c by (simp add: deliverable_500)
qed

text \<open>
  C7, as the code has it. Two-key mode with fast repeat on, a primary switch (role 0) that
  opens a press and is held for 500 ms: the press appends one Dit at once and every timeout of
  the 100 ms timer that is delivered before the release appends one more. Four or five
  timeouts are delivered (the one due at 500 ms only if it is handled before the release), so
  five or six Dit symbols are appended: five exactly when the release comes first. The release
  appends nothing and stops the timer: a later timeout changes nothing.
\<close>

theorem fast_repeat_held_500ms_dits:
  assumes "keySelection e = TwoKey" and "fastMorseMode e" and "lastKeyDownTime s = None"
    and "\<not> inputDisabled s" and "key \<noteq> ''P''" and "deliverable 500 n"
  shows "(n = 4 \<or> n = 5)
       \<and> currentCharacter (run e s (hold key 0 t0 500 n))
           = currentCharacter s @ replicate (Suc n) Dit
       \<and> (currentCharacter (run e s (hold key 0 t0 500 n))
             = currentCharacter s @ [Dit, Dit, Dit, Dit, Dit]) = (n = 4)
       \<and> fast_morse_mode_timer (run e s (hold key 0 t0 500 n)) = None
       \<and> step e (run e s (hold key 0 t0 500 n)) FastMorseTimeout = run e s (hold key 0 t0 500 n)"
proof -
  have n: "n = 4 \<or> n = 5" using assms(6) by (simp add: deliverable_500)
  have five: "[Dit, Dit, Dit, Dit, Dit] = replicate 5 Dit" by (simp add: numeral_eq_Suc)
  have e: "(currentCharacter s @ replicate (Suc n) Dit = currentCharacter s @ replicate 5 Dit)
      = (n = 4)"
    using n by (auto simp: numeral_eq_Suc)
  show ?thesis
    unfolding held_primary_appends [OF assms(1-5)] five
    using n e by simp
qed

theorem fast_repeat_held_500ms_dits_witness:
  "keySelection (example_env TwoKey True) = TwoKey
   \<and> fastMorseMode (example_env TwoKey True)
   \<and> lastKeyDownTime (initial mouse_layout ''mouse'' None) = None
   \<and> \<not> inputDisabled (initial mouse_layout ''mouse'' None)
   \<and> deliverable 500 4
   \<and> currentCharacter
       (run (example_env TwoKey True) (initial mouse_layout ''mouse'' None)
          (hold ''space'' 0 0 500 4)) = [Dit, Dit, Dit, Dit, Dit]
   \<and> fast_morse_mode_timer
       (run (example_env TwoKey True) (initial mouse_layout ''mouse'' None)
          (hold ''space'' 0 0 500 4)) = None"
proof -
  have a: "keySelection (example_env TwoKey True) = TwoKey" "fastMorseMode (example_env TwoKey True)"
    by (simp_all add: example_env_def)
  have b: "lastKeyDownTime (initial mouse_layout ''mouse'' None) = None"
    "\<not> inputDisabled (initial mouse_layout ''mouse'' None)"
    "currentCharacter (initial mouse_layout ''mouse'' None) = []"
    by (simp_all add: initial_def)
  have k: "''space'' \<noteq> ''P''" by simp
  have d: "deliverable 500 4" by (simp add: deliverable_500)
  show ?thesis
    using fast_repeat_held_500ms_dits [OF a b(1,2) k d, of 0] a b d
    by (simp add: numeral_eq_Suc)
qed

section \<open>The open-press guard\<close>

text \<open>
  C10. The guard is the single attribute \<open>lastKeyDownTime\<close>. While it is set, a press of any
  key and any role, in any mode, only resets the repeat flag and stops the sticky-repeat timer
  held in the attribute: no symbol is appended, no finalization runs, the recorded press time
  stays that of the open press, and the fast-repeat timer is not replaced.
\<close>

theorem open_press_guard_is_shared:
  assumes "lastKeyDownTime s = Some t0"
  shows "on_press e key role now s = s\<lparr>repeaton := False, repeat_character_timer := False\<rparr>
       \<and> currentCharacter (on_press e key role now s) = currentCharacter s
       \<and> lastKeyDownTime (on_press e key role now s) = Some t0
       \<and> fast_morse_mode_timer (on_press e key role now s) = fast_morse_mode_timer s
       \<and> endCharacter_count (on_press e key role now s) = endCharacter_count s
       \<and> synthesized (on_press e key role now s) = synthesized s"
  using assms by (simp add: on_press_def check_disable_combination_def Let_def)

theorem open_press_guard_is_shared_witness:
  "lastKeyDownTime
     (on_press (example_env ThreeKey True) ''space'' 0 0 (initial mouse_layout ''mouse'' None))
     = Some 0
   \<and> currentCharacter
       (on_press (example_env ThreeKey True) ''space'' 0 0 (initial mouse_layout ''mouse'' None))
     = [Dit]
   \<and> on_press (example_env ThreeKey True) ''enter'' 1 (1 / 20)
       (on_press (example_env ThreeKey True) ''space'' 0 0 (initial mouse_layout ''mouse'' None))
     = on_press (example_env ThreeKey True) ''space'' 0 0 (initial mouse_layout ''mouse'' None)
   \<and> on_press (example_env ThreeKey True) ''right ctrl'' 2 (1 / 20)
       (on_press (example_env ThreeKey True) ''space'' 0 0 (initial mouse_layout ''mouse'' None))
     = on_press (example_env ThreeKey True) ''space'' 0 0 (initial mouse_layout ''mouse'' None)"
proof -
  let ?e = "example_env ThreeKey True"
  let ?s = "on_press ?e ''space'' 0 0 (initial mouse_layout ''mouse'' None)"
  have p: "?s = (initial mouse_layout ''mouse'' None)
             \<lparr>lastKeyDownTime := Some 0, fast_morse_mode_timer := Some (''space'', 0),
              currentCharacter := [Dit]\<rparr>"
    by (simp add: on_press_def check_disable_combination_def Let_def addDit_def example_env_def
        initial_def)
  have o: "lastKeyDownTime ?s = Some 0" unfolding p by simp
  have c: "currentCharacter ?s = [Dit]" unfolding p by simp
  have i: "?s\<lparr>repeaton := False, repeat_character_timer := False\<rparr> = ?s"
    unfolding p by (simp add: initial_def)
  show ?thesis
    using open_press_guard_is_shared [OF o, of ?e "''enter''" 1 "1 / 20"]
      open_press_guard_is_shared [OF o, of ?e "''right ctrl''" 2 "1 / 20"] o c i
    by simp
qed

section \<open>Abbreviations\<close>

lemma py_split_word:
  assumes "w \<noteq> []" and "\<forall>c \<in> set w. \<not> isspace c"
  shows "py_split w = [w]"
  using assms
proof (induction w)
  case Nil
  then show ?case by simp
next
  case (Cons c cs)
  show ?case
  proof (cases cs)
    case Nil
    then show ?thesis using Cons.prems by simp
  next
    case (Cons d ds)
    then have "py_split cs = [cs]" using Cons.IH Cons.prems by simp
    then show ?thesis using Cons Cons.prems by simp
  qed
qed

lemma py_split_nonempty: "\<not> isspace c \<Longrightarrow> py_split (c # cs) \<noteq> []"
  by (cases cs) (auto split: list.splits)

lemma py_split_append_word:
  assumes "w \<noteq> []" and "\<forall>c \<in> set w. \<not> isspace c" and "t = [] \<or> isspace (last t)"
  shows "py_split (t @ w) = py_split t @ [w]"
  using assms(3)
proof (induction t)
  case Nil
  then show ?case using assms(1,2) by (simp add: py_split_word)
next
  case (Cons c cs)
  show ?case
  proof (cases "isspace c")
    case True
    have "cs = [] \<or> isspace (last cs)" using Cons.prems by (auto split: if_splits)
    then have "py_split (cs @ w) = py_split cs @ [w]" by (rule Cons.IH)
    then show ?thesis using True by simp
  next
    case False
    then have ne: "cs \<noteq> []" using Cons.prems by auto
    then obtain d ds where cs: "cs = d # ds" by (cases cs) auto
    have "isspace (last cs)" using Cons.prems ne by simp
    then have ih: "py_split (cs @ w) = py_split cs @ [w]" using Cons.IH by simp
    show ?thesis
    proof (cases "isspace d")
      case True
      then show ?thesis using False cs ih by simp
    next
      case nd: False
      then obtain x xs where x: "py_split cs = x # xs"
        using py_split_nonempty [of d ds] cs by (cases "py_split cs") auto
      then show ?thesis using False nd cs ih by simp
    qed
  qed
qed

lemma last_word_after_boundary:
  assumes "w \<noteq> []" and "\<forall>c \<in> set w. \<not> isspace c" and "t = [] \<or> isspace (last t)"
  shows "expand_abbreviation (t @ w) abbrs
       = (case map_of abbrs w of
            Some expansion \<Rightarrow> Inr (Some expansion, Some (length w))
          | None \<Rightarrow> Inr (None, None))"
proof -
  have "py_split (t @ w) = py_split t @ [w]" using assms by (rule py_split_append_word)
  then show ?thesis
    by (cases "py_split t") (simp_all add: expand_abbreviation_def)
qed

lemma rollback_eq:
  "rollback n ts out
     = (ts\<lparr>ts_text := (butlast ^^ n) (ts_text ts),
           predictions := (if n = 0 then predictions ts else None)\<rparr>,
        out @ replicate n (PressAndRelease ''backspace''))"
proof (induction n arbitrary: ts out)
  case 0
  then show ?case by simp
next
  case (Suc n)
  show ?case
    by (simp add: Suc.IH popchar_def funpow_swap1 replicate_app_Cons_same)
qed

text \<open>A letter key that completes no abbreviation: the key is sent and the letter pushed.\<close>

lemma letter_without_expansion:
  assumes "typestate s = Some ts" and "key \<noteq> ''backspace''" and "key \<noteq> ''delete''"
    and "expand_abbreviation (ts_text ts @ ch) (abbreviations ts) = Inr (None, None)"
  shows "perform e (ActionKeyStroke (Some ch) key False) s
       = s\<lparr>synthesized := synthesized s @ [PressAndRelease key],
           typestate := Some (ts\<lparr>ts_text := ts_text ts @ ch, predictions := None,
                                 expanded_text := ExpNone, keyLength := None\<rparr>)\<rparr>"
  using assms
  by (simp add: ActionKeyStroke_perform_def send_def Let_def get_abbreviation_def pushchar_def)

text \<open>A letter key that completes an abbreviation: the key, the backspaces, the expansion
  letter by letter, and the space key are sent; the text is rolled back.\<close>

lemma letter_with_expansion:
  assumes "typestate s = Some ts" and "key \<noteq> ''backspace''" and "key \<noteq> ''delete''"
    and "expand_abbreviation (ts_text ts @ ch) (abbreviations ts) = Inr (Some x, Some n)"
  shows "perform e (ActionKeyStroke (Some ch) key False) s
       = s\<lparr>synthesized := synthesized s @ [PressAndRelease key]
                @ replicate n (PressAndRelease ''backspace'')
                @ map (\<lambda>c. PressAndRelease [c]) x @ [PressAndRelease ''space''],
           typestate := Some (ts\<lparr>ts_text := (butlast ^^ n) (ts_text ts @ ch),
                                 predictions := None,
                                 expanded_text := ExpText x, keyLength := Some n\<rparr>)\<rparr>"
  using assms
  by (simp add: ActionKeyStroke_perform_def send_def Let_def get_abbreviation_def pushchar_def
      rollback_eq)

text \<open>
  With the table \<open>{"brb": "be right back"}\<close> the expansion is synthesized by the third letter
  key, before any further key. The space key that follows sends \<open>space\<close> and then three more
  backspaces: \<open>" ".split()\<close> is empty, \<open>words[-1]\<close> raises, \<open>get_abbreviation\<close> returns the pair
  \<open>(None, None)\<close> (which is not \<open>None\<close>) with the length 3 left from the expansion.
\<close>

theorem expansion_waits_for_trigger_key_counterexample:
  "synthesized
     (perform (example_env TwoKey False) (ActionKeyStroke (Some ''b'') ''b'' False)
       (perform (example_env TwoKey False) (ActionKeyStroke (Some ''r'') ''r'' False)
         (perform (example_env TwoKey False) (ActionKeyStroke (Some ''b'') ''b'' False)
           (initial [] ''typing'' (Some brb_typestate)))))
     = [PressAndRelease ''b'', PressAndRelease ''r'', PressAndRelease ''b'',
        PressAndRelease ''backspace'', PressAndRelease ''backspace'',
        PressAndRelease ''backspace'',
        PressAndRelease ''b'', PressAndRelease ''e'', PressAndRelease '' '',
        PressAndRelease ''r'', PressAndRelease ''i'', PressAndRelease ''g'',
        PressAndRelease ''h'', PressAndRelease ''t'', PressAndRelease '' '',
        PressAndRelease ''b'', PressAndRelease ''a'', PressAndRelease ''c'',
        PressAndRelease ''k'', PressAndRelease ''space'']
   \<and> synthesized
       (perform (example_env TwoKey False) (ActionKeyStroke (Some '' '') ''space'' False)
         (perform (example_env TwoKey False) (ActionKeyStroke (Some ''b'') ''b'' False)
           (perform (example_env TwoKey False) (ActionKeyStroke (Some ''r'') ''r'' False)
             (perform (example_env TwoKey False) (ActionKeyStroke (Some ''b'') ''b'' False)
               (initial [] ''typing'' (Some brb_typestate))))))
     = [PressAndRelease ''b'', PressAndRelease ''r'', PressAndRelease ''b'',
        PressAndRelease ''backspace'', PressAndRelease ''backspace'',
        PressAndRelease ''backspace'',
        PressAndRelease ''b'', PressAndRelease ''e'', PressAndRelease '' '',
        PressAndRelease ''r'', PressAndRelease ''i'', PressAndRelease ''g'',
        PressAndRelease ''h'', PressAndRelease ''t'', PressAndRelease '' '',
        PressAndRelease ''b'', PressAndRelease ''a'', PressAndRelease ''c'',
        PressAndRelease ''k'', PressAndRelease ''space'']
       @ [PressAndRelease ''space'', PressAndRelease ''backspace'',
          PressAndRelease ''backspace'', PressAndRelease ''backspace'']"
  by (simp add: ActionKeyStroke_perform_def send_def Let_def get_abbreviation_def pushchar_def
      popchar_def expand_abbreviation_def isspace_def initial_def brb_typestate_def)

text \<open>
  C8, as the code has it. With an abbreviation table that maps \<open>brb\<close> to \<open>be right back\<close>
  (and has no entry for \<open>b\<close> or \<open>br\<close>), a text state attached, and the text so far empty or
  ending in whitespace: the keys \<open>b\<close> and \<open>r\<close> are only sent and pushed; the third key \<open>b\<close>
  is sent and is followed at once, with no trigger key, by 3 backspaces, the characters of
  \<open>be right back\<close> and the \<open>space\<close> key, and the text is rolled back to what it was before
  the three letters.
\<close>

theorem abbreviation_expands_on_last_letter:
  assumes "typestate s = Some ts"
    and "ts_text ts = [] \<or> isspace (last (ts_text ts))"
    and "map_of (abbreviations ts) ''b'' = None"
    and "map_of (abbreviations ts) ''br'' = None"
    and "map_of (abbreviations ts) ''brb'' = Some ''be right back''"
  shows "synthesized
           (perform e (ActionKeyStroke (Some ''r'') ''r'' False)
             (perform e (ActionKeyStroke (Some ''b'') ''b'' False) s))
           = synthesized s @ [PressAndRelease ''b'', PressAndRelease ''r'']
       \<and> synthesized
           (perform e (ActionKeyStroke (Some ''b'') ''b'' False)
             (perform e (ActionKeyStroke (Some ''r'') ''r'' False)
               (perform e (ActionKeyStroke (Some ''b'') ''b'' False) s)))
           = synthesized s @ [PressAndRelease ''b'', PressAndRelease ''r'', PressAndRelease ''b'']
               @ replicate 3 (PressAndRelease ''backspace'')
               @ map (\<lambda>c. PressAndRelease [c]) ''be right back''
               @ [PressAndRelease ''space'']
       \<and> map_option ts_text
           (typestate
             (perform e (ActionKeyStroke (Some ''b'') ''b'' False)
               (perform e (ActionKeyStroke (Some ''r'') ''r'' False)
                 (perform e (ActionKeyStroke (Some ''b'') ''b'' False) s))))
           = Some (ts_text ts)"
proof -
  let ?t = "ts_text ts"
  let ?b = "ActionKeyStroke (Some ''b'') ''b'' False"
  let ?r = "ActionKeyStroke (Some ''r'') ''r'' False"
  have x1: "expand_abbreviation (?t @ ''b'') (abbreviations ts) = Inr (None, None)"
    using last_word_after_boundary [of "''b''" ?t "abbreviations ts"] assms(2,3)
    by (simp add: isspace_def)
  have x2: "expand_abbreviation (?t @ ''br'') (abbreviations ts) = Inr (None, None)"
    using last_word_after_boundary [of "''br''" ?t "abbreviations ts"] assms(2,4)
    by (simp add: isspace_def)
  have x3: "expand_abbreviation (?t @ ''brb'') (abbreviations ts)
      = Inr (Some ''be right back'', Some 3)"
    using last_word_after_boundary [of "''brb''" ?t "abbreviations ts"] assms(2,5)
    by (simp add: isspace_def)
  define ts1 where "ts1 = ts\<lparr>ts_text := ?t @ ''b'', predictions := None,
                             expanded_text := ExpNone, keyLength := None\<rparr>"
  define s1 where "s1 = s\<lparr>synthesized := synthesized s @ [PressAndRelease ''b''],
                          typestate := Some ts1\<rparr>"
  have p1: "perform e ?b s = s1"
    unfolding s1_def ts1_def
    using assms(1) x1 by (intro letter_without_expansion) simp_all
  define ts2 where "ts2 = ts1\<lparr>ts_text := ts_text ts1 @ ''r'', predictions := None,
                              expanded_text := ExpNone, keyLength := None\<rparr>"
  define s2 where "s2 = s1\<lparr>synthesized := synthesized s1 @ [PressAndRelease ''r''],
                           typestate := Some ts2\<rparr>"
  have t1: "typestate s1 = Some ts1" by (simp add: s1_def)
  have y2: "expand_abbreviation (ts_text ts1 @ ''r'') (abbreviations ts1) = Inr (None, None)"
    using x2 by (simp add: ts1_def)
  have p2: "perform e ?r s1 = s2"
    unfolding s2_def ts2_def
    using t1 y2 by (intro letter_without_expansion) simp_all
  have t2: "typestate s2 = Some ts2" by (simp add: s2_def)
  have y3: "expand_abbreviation (ts_text ts2 @ ''b'') (abbreviations ts2)
      = Inr (Some ''be right back'', Some 3)"
    using x3 by (simp add: ts2_def ts1_def)
  have p3: "perform e ?b s2
      = s2\<lparr>synthesized := synthesized s2 @ [PressAndRelease ''b'']
                @ replicate 3 (PressAndRelease ''backspace'')
                @ map (\<lambda>c. PressAndRelease [c]) ''be right back'' @ [PressAndRelease ''space''],
           typestate := Some (ts2\<lparr>ts_text := (butlast ^^ 3) (ts_text ts2 @ ''b''),
                                 predictions := None,
                                 expanded_text := ExpText ''be right back'',
                                 keyLength := Some 3\<rparr>)\<rparr>"
    using t2 _ _ y3 by (rule letter_with_expansion) simp_all
  have bl: "(butlast ^^ 3) (ts_text ts2 @ ''b'') = ?t"
    by (simp add: ts2_def ts1_def numeral_3_eq_3 butlast_append)
  have a: "synthesized (perform e ?r (perform e ?b s))
      = synthesized s @ [PressAndRelease ''b'', PressAndRelease ''r'']"
    unfolding p1 p2 by (simp add: s2_def s1_def)
  have b: "synthesized (perform e ?b (perform e ?r (perform e ?b s)))
      = synthesized s @ [PressAndRelease ''b'', PressAndRelease ''r'', PressAndRelease ''b'']
               @ replicate 3 (PressAndRelease ''backspace'')
               @ map (\<lambda>c. PressAndRelease [c]) ''be right back''
               @ [PressAndRelease ''space'']"
    unfolding p1 p2 p3 by (simp add: s2_def s1_def)
  have c: "map_option ts_text (typestate (perform e ?b (perform e ?r (perform e ?b s))))
      = Some ?t"
    unfolding p1 p2 p3 by (simp add: bl)
  from a b c show ?thesis by (intro conjI)
qed

theorem abbreviation_expands_on_last_letter_witness:
  "typestate (initial [] ''typing'' (Some (brb_typestate\<lparr>ts_text := ''ok ''\<rparr>)))
     = Some (brb_typestate\<lparr>ts_text := ''ok ''\<rparr>)
   \<and> isspace (last (ts_text (brb_typestate\<lparr>ts_text := ''ok ''\<rparr>)))
   \<and> map_of (abbreviations (brb_typestate\<lparr>ts_text := ''ok ''\<rparr>)) ''brb'' = Some ''be right back''
   \<and> synthesized
       (perform (example_env TwoKey False) (ActionKeyStroke (Some ''b'') ''b'' False)
         (perform (example_env TwoKey False) (ActionKeyStroke (Some ''r'') ''r'' False)
           (perform (example_env TwoKey False) (ActionKeyStroke (Some ''b'') ''b'' False)
             (initial [] ''typing'' (Some (brb_typestate\<lparr>ts_text := ''ok ''\<rparr>))))))
     = [PressAndRelease ''b'', PressAndRelease ''r'', PressAndRelease ''b'',
        PressAndRelease ''backspace'', PressAndRelease ''backspace'',
        PressAndRelease ''backspace'',
        PressAndRelease ''b'', PressAndRelease ''e'', PressAndRelease '' '',
        PressAndRelease ''r'', PressAndRelease ''i'', PressAndRelease ''g'',
        PressAndRelease ''h'', PressAndRelease ''t'', PressAndRelease '' '',
        PressAndRelease ''b'', PressAndRelease ''a'', PressAndRelease ''c'',
        PressAndRelease ''k'', PressAndRelease ''space'']
   \<and> map_option ts_text
       (typestate
         (perform (example_env TwoKey False) (ActionKeyStroke (Some ''b'') ''b'' False)
           (perform (example_env TwoKey False) (ActionKeyStroke (Some ''r'') ''r'' False)
             (perform (example_env TwoKey False) (ActionKeyStroke (Some ''b'') ''b'' False)
               (initial [] ''typing'' (Some (brb_typestate\<lparr>ts_text := ''ok ''\<rparr>)))))))
     = Some ''ok ''"
proof -
  let ?ts = "brb_typestate\<lparr>ts_text := ''ok ''\<rparr>"
  let ?s = "initial [] ''typing'' (Some ?ts)"
  have a: "typestate ?s = Some ?ts" by (simp add: initial_def)
  have b: "ts_text ?ts = [] \<or> isspace (last (ts_text ?ts))" by (simp add: isspace_def)
  have c: "map_of (abbreviations ?ts) ''b'' = None" "map_of (abbreviations ?ts) ''br'' = None"
    "map_of (abbreviations ?ts) ''brb'' = Some ''be right back''"
    by (simp_all add: brb_typestate_def)
  have d: "isspace (last (ts_text ?ts))" by (simp add: isspace_def)
  have i: "synthesized ?s = []" by (simp add: initial_def)
  show ?thesis
    using abbreviation_expands_on_last_letter [OF a b c, of "example_env TwoKey False"] a c(3) d i
    by (simp add: numeral_3_eq_3)
qed

section \<open>Selecting a prediction\<close>

lemma perform_module_typestate:
  assumes "module_typestate s = None"
  shows "module_typestate (perform e a s) = None"
proof (cases a)
  case (ActionKeyStroke ch key tog)
  then show ?thesis using assms
    by (auto simp: ActionKeyStroke_perform_def send_def Let_def
        split: option.splits expanded.splits prod.splits)
next
  case (ActionLegacy key)
  then show ?thesis using assms
    by (simp add: ActionLegacy_perform_def send_def split: option.splits)
next
  case (ChangeLayoutAction n)
  then show ?thesis using assms by (simp add: changeLayout_def)
next
  case (PredictionSelectLayoutAction t)
  then show ?thesis using assms by (simp add: PredictionSelectLayoutAction_perform_def)
next
  case RepeatOnAction
  then show ?thesis using assms by (simp add: enableRepeatMode_def)
qed

lemma handleMorseCode_module_typestate:
  assumes "module_typestate s = None"
  shows "module_typestate (handleMorseCode e c s) = None"
  using assms
  by (simp add: handleMorseCode_def Let_def perform_module_typestate
      split: sum.splits option.splits)

lemma endCharacter_module_typestate:
  assumes "module_typestate s = None"
  shows "module_typestate (endCharacter e s) = None"
proof -
  let ?s1 = "s\<lparr>endCharacterTimer := False, endCharacter_count := Suc (endCharacter_count s)\<rparr>"
  have "module_typestate ?s1 = None" using assms by simp
  then have "module_typestate (handleMorseCode e (currentCharacter ?s1) ?s1) = None"
    by (rule handleMorseCode_module_typestate)
  then show ?thesis by (simp add: endCharacter_def Let_def)
qed

lemma step_module_typestate:
  assumes "module_typestate s = None"
  shows "module_typestate (step e s ev) = None"
proof (cases ev)
  case (Press key role now)
  then show ?thesis using assms
    by (auto simp: on_press_def check_disable_combination_def Let_def addDit_def addDah_def
        endCharacter_module_typestate)
next
  case (Release key role now)
  then show ?thesis using assms
    by (simp add: on_release_def Let_def addDit_def addDah_def startEndCharacterTimer_def
        split: option.splits)
next
  case EndCharacterTimeout
  then show ?thesis using assms by (simp add: endCharacter_module_typestate)
next
  case FastMorseTimeout
  then show ?thesis using assms
    by (simp add: repeat_key_def addDit_def addDah_def endCharacter_module_typestate
        split: option.splits prod.splits)
next
  case RepeatCharacterTimeout
  then show ?thesis using assms by (simp add: handleMorseCode_module_typestate)
qed

text \<open>The module-level variable \<open>typestate\<close> is bound to \<open>None\<close> when the module is loaded and
  nothing assigns it: it is \<open>None\<close> in every state the engine reaches.\<close>

lemma module_typestate_stays_unbound:
  "module_typestate (run e (initial ls main ts) evs) = None"
proof (induction evs rule: rev_induct)
  case Nil
  then show ?case by (simp add: run_Nil initial_def)
next
  case (snoc ev evs)
  then show ?case by (simp add: run_snoc step_module_typestate)
qed

lemma prediction_select_does_nothing:
  "perform e (PredictionSelectLayoutAction target) (run e (initial ls main ts) evs)
     = run e (initial ls main ts) evs"
  by (simp add: PredictionSelectLayoutAction_perform_def module_typestate_stays_unbound)

lemma hel_stripsuffix:
  "find_stripsuffix ''hel'' [0 ..< Suc (Suc (Suc (Suc (Suc 0))))] = ''hel''"
proof -
  have "[0 ..< Suc (Suc (Suc (Suc (Suc 0))))] = [0, Suc 0, Suc (Suc 0), Suc (Suc (Suc 0)), Suc (Suc (Suc (Suc 0)))]"
    by (simp add: upt_rec)
  then show ?thesis by simp
qed

text \<open>
  C9. The text state of the window holds \<open>hel\<close> and the prediction list is \<open>["hello"]\<close>, so
  slot 0 is in range. \<open>perform\<close> consults the module-level variable, finds \<open>None\<close> and does
  nothing: no text is replaced and no key is synthesized. Were that variable bound to the text
  state, the keys \<open>l\<close>, \<open>o\<close> and the blank would be synthesized, but the text would become
  \<open>lo \<close>: the typed prefix is cut off together with the prefix of the prediction, instead of
  the word in progress being replaced by \<open>hello \<close>.
\<close>

theorem prediction_select_failing_input:
  "0 < int (length [''hello''])
   \<and> perform (example_env TwoKey False) (PredictionSelectLayoutAction 0)
       (initial [] ''typing'' (Some hel_typestate))
     = initial [] ''typing'' (Some hel_typestate)
   \<and> map_option ts_text
       (module_typestate
         (perform (example_env TwoKey False) (PredictionSelectLayoutAction 0)
           ((initial [] ''typing'' (Some hel_typestate))\<lparr>module_typestate := Some hel_typestate\<rparr>)))
     = Some ''lo ''
   \<and> synthesized
       (perform (example_env TwoKey False) (PredictionSelectLayoutAction 0)
         ((initial [] ''typing'' (Some hel_typestate))\<lparr>module_typestate := Some hel_typestate\<rparr>))
     = [PressAndRelease ''l'', PressAndRelease ''o'', PressAndRelease '' '']"
proof -
  let ?e = "example_env TwoKey False"
  let ?s = "initial [] ''typing'' (Some hel_typestate)"
  have n: "perform ?e (PredictionSelectLayoutAction 0) ?s = ?s"
    by (simp add: PredictionSelectLayoutAction_perform_def initial_def)
  have g: "getpredictions ?e hel_typestate = ([''hello''], hel_typestate)"
    by (simp add: getpredictions_def hel_typestate_def)
  have t: "ts_text hel_typestate = ''hel''" by (simp add: hel_typestate_def)
  have p: "perform ?e (PredictionSelectLayoutAction 0) (?s\<lparr>module_typestate := Some hel_typestate\<rparr>)
      = ?s\<lparr>module_typestate := Some (hel_typestate\<lparr>ts_text := ''lo ''\<rparr>),
            synthesized := synthesized ?s
              @ [PressAndRelease ''l'', PressAndRelease ''o'', PressAndRelease '' '']\<rparr>"
    by (simp add: PredictionSelectLayoutAction_perform_def g t hel_stripsuffix
        del: find_stripsuffix.simps upt_Suc)
  show ?thesis unfolding n p by (simp add: initial_def)
qed

section \<open>Sticky repeat\<close>

text \<open>What does hold of the repeat lifecycle: a press starts from the flag off and the
  attribute's timer stopped, whatever they were before.\<close>

lemma press_resets_repeat:
  "on_press e key role now s
     = on_press e key role now (s\<lparr>repeaton := False, repeat_character_timer := False\<rparr>)"
  by (simp add: on_press_def)

text \<open>A sticky-repeat timer is started only by \<open>endCharacter\<close>, and then the flag is on and
  the previous character is not empty.\<close>

lemma endCharacter_repeat_timer:
  "repeat_character_timer (endCharacter e s)
     = (repeat_character_timer s
        \<or> (repeaton (endCharacter e s) \<and> previousCharacter (endCharacter e s) \<noteq> []))"
  by (auto simp: endCharacter_def Let_def)

lemma orphans_only_grow_in_endCharacter:
  "orphaned_repeat_timers (endCharacter e s)
     = orphaned_repeat_timers s
       + (if repeat_character_timer s \<and> repeaton (endCharacter e s)
             \<and> previousCharacter (endCharacter e s) \<noteq> [] then 1 else 0)"
  by (auto simp: endCharacter_def Let_def)

text \<open>No event other than one that runs \<open>endCharacter\<close> puts a timer into the attribute, and
  when one does, the flag is on and the previous character is not empty.\<close>

lemma repeat_timer_started_only_at_finalization:
  assumes "repeat_character_timer (step e s ev)" and "\<not> repeat_character_timer s"
  shows "endCharacter_count (step e s ev) = Suc (endCharacter_count s)
       \<and> repeaton (step e s ev) \<and> previousCharacter (step e s ev) \<noteq> []"
proof (cases ev)
  case (Press key role now)
  then show ?thesis using assms
    by (auto simp: on_press_def check_disable_combination_def Let_def addDit_def addDah_def
        endCharacter_def split: if_splits)
next
  case (Release key role now)
  then show ?thesis using assms
    by (auto simp: on_release_def Let_def addDit_def addDah_def startEndCharacterTimer_def
        split: option.splits if_splits)
next
  case EndCharacterTimeout
  then show ?thesis using assms by (auto simp: endCharacter_def Let_def split: if_splits)
next
  case FastMorseTimeout
  then show ?thesis using assms
    by (auto simp: repeat_key_def addDit_def addDah_def endCharacter_def Let_def
        split: option.splits prod.splits if_splits)
next
  case RepeatCharacterTimeout
  then show ?thesis using assms by (simp split: if_splits)
qed

text \<open>
  C6. Three-key mode with fast repeat. Dit, then the third key: the pointer moves up and Dit
  is the previous character. Dit Dah, then the third key held for one fast-repeat timeout: the
  first \<open>endCharacter\<close> turns the repeat flag on and starts a sticky-repeat timer, the second
  (on the empty buffer, flag still on) starts another and drops the first from the attribute
  without stopping it. After the release, the next press resets the flag and stops the timer
  in the attribute, but the dropped timer still runs, and its timeout moves the pointer again.
\<close>

theorem sticky_repeat_survives_press:
  "\<not> repeaton
       (run (example_env ThreeKey True) (initial mouse_layout ''mouse'' None) held_end_key_events)
   \<and> \<not> repeat_character_timer
       (run (example_env ThreeKey True) (initial mouse_layout ''mouse'' None) held_end_key_events)
   \<and> orphaned_repeat_timers
       (run (example_env ThreeKey True) (initial mouse_layout ''mouse'' None) held_end_key_events)
     = 1
   \<and> synthesized
       (run (example_env ThreeKey True) (initial mouse_layout ''mouse'' None) held_end_key_events)
     = [MoveMouse 0 (- 5)]
   \<and> synthesized
       (step (example_env ThreeKey True)
          (run (example_env ThreeKey True) (initial mouse_layout ''mouse'' None)
             held_end_key_events)
          RepeatCharacterTimeout)
     = [MoveMouse 0 (- 5), MoveMouse 0 (- 5)]"
proof -
  let ?e = "example_env ThreeKey True"
  let ?s0 = "initial mouse_layout ''mouse'' None"
  note defs = on_press_def on_release_def repeat_key_def check_disable_combination_def
      Let_def example_env_def initial_def addDit_def addDah_def startEndCharacterTimer_def
      endCharacter_def handleMorseCode_def morse_code_of_def get_active_layout_def
      mouse_layout_def find_item_def ActionLegacy_perform_def action_map_def send_def
      enableRepeatMode_def
  define s1 where "s1 = ?s0\<lparr>previousCharacter := [Dit], synthesized := [MoveMouse 0 (- 5)],
                            endCharacter_count := 1\<rparr>"
  have r1: "run ?e ?s0 [Press ''space'' 0 0, Release ''space'' 0 (1 / 20),
                        Press ''right ctrl'' 2 1, Release ''right ctrl'' 2 (21 / 20)] = s1"
    unfolding s1_def by (simp add: run_def defs)
  define s2 where "s2 = s1\<lparr>currentCharacter := [Dit, Dah]\<rparr>"
  have r2: "run ?e s1 [Press ''space'' 0 2, Release ''space'' 0 (41 / 20),
                       Press ''enter'' 1 3, Release ''enter'' 1 (61 / 20)] = s2"
    unfolding s2_def s1_def by (simp add: run_def defs)
  define s3 where "s3 = s1\<lparr>repeaton := True, repeat_character_timer := True,
                           orphaned_repeat_timers := 1, endCharacter_count := 3\<rparr>"
  have r3: "run ?e s2 [Press ''right ctrl'' 2 4, FastMorseTimeout,
                       Release ''right ctrl'' 2 (83 / 20)] = s3"
    unfolding s3_def s2_def s1_def by (simp add: run_def defs)
  define s4 where "s4 = s1\<lparr>orphaned_repeat_timers := 1, endCharacter_count := 3,
                           lastKeyDownTime := Some 5,
                           fast_morse_mode_timer := Some (''space'', 0),
                           currentCharacter := [Dit]\<rparr>"
  have r4: "run ?e s3 [Press ''space'' 0 5] = s4"
    unfolding s4_def s3_def s1_def by (simp add: run_def defs)
  have split: "held_end_key_events
      = [Press ''space'' 0 0, Release ''space'' 0 (1 / 20),
         Press ''right ctrl'' 2 1, Release ''right ctrl'' 2 (21 / 20)]
        @ [Press ''space'' 0 2, Release ''space'' 0 (41 / 20),
           Press ''enter'' 1 3, Release ''enter'' 1 (61 / 20)]
        @ [Press ''right ctrl'' 2 4, FastMorseTimeout, Release ''right ctrl'' 2 (83 / 20)]
        @ [Press ''space'' 0 5]"
    unfolding held_end_key_events_def by simp
  have r: "run ?e ?s0 held_end_key_events = s4"
    unfolding split run_append r1 r2 r3 r4 ..
  have t: "synthesized (step ?e s4 RepeatCharacterTimeout)
      = [MoveMouse 0 (- 5), MoveMouse 0 (- 5)]"
    unfolding s4_def s1_def by (simp add: defs)
  have f: "\<not> repeaton s4" "\<not> repeat_character_timer s4" "orphaned_repeat_timers s4 = 1"
    "synthesized s4 = [MoveMouse 0 (- 5)]"
    unfolding s4_def s1_def by (simp_all add: initial_def)
  show ?thesis unfolding r using f t by simp
qed

end
